theory Spec2Isabelle
  imports Complex_Main "HOL-Library.AList" "HOL-Library.Code_Target_Nat"
begin

section \<open>Numbers and positions\<close>

text \<open>
  The TypeScript sources compute with JavaScript numbers, which are IEEE 754 binary64
  values.  A finite number is modelled by the rational it denotes (\<^verbatim>\<open>-0\<close> and \<^verbatim>\<open>0\<close> are one
  value), and every sum, difference and quotient of the source is the exact result rounded
  to the nearest binary64 value, ties to the even significand.  The exponent is not
  bounded: overflow to \<^verbatim>\<open>Infinity\<close> and the subnormal range are not modelled, geographic
  coordinates being far from both.  Comparisons, \<^verbatim>\<open>Math.floor\<close>, \<^verbatim>\<open>Math.min\<close>, \<^verbatim>\<open>Math.max\<close>
  and \<^verbatim>\<open>toFixed\<close> are exact on their arguments.
\<close>

text \<open>The number of binary digits of a positive integer.\<close>

function bitLength :: "int \<Rightarrow> int" where
  "bitLength n = (if n \<le> 0 then 0 else bitLength (n div 2) + 1)"
  by auto

termination
  by (relation "measure nat") auto

declare bitLength.simps [simp del]

text \<open>Rounding to the nearest integer, a tie to the even one.\<close>

definition roundHalfEven :: "rat \<Rightarrow> int" where
  "roundHalfEven s =
     (let f = \<lfloor>s\<rfloor>;
          r = s - of_int f
      in if r < 1 / 2 then f
         else if 1 / 2 < r then f + 1
         else if even f then f else f + 1)"

text \<open>
  For \<open>q > 0\<close>, the number \<open>k\<close> with \<open>2\<^sup>k\<^sup>-\<^sup>1 \<le> q \<le> 2\<^sup>k\<close>, read off the integer part of \<open>q\<close> or of
  its inverse, and from it the exponent \<open>e\<close> with \<open>2\<^sup>5\<^sup>2 \<le> q / 2\<^sup>e < 2\<^sup>5\<^sup>3\<close>.
\<close>

definition magnitudeBits :: "rat \<Rightarrow> int" where
  "magnitudeBits q = (if 1 \<le> q then bitLength \<lfloor>q\<rfloor> else 1 - bitLength \<lfloor>1 / q\<rfloor>)"

definition exponentFrom :: "rat \<Rightarrow> int \<Rightarrow> int" where
  "exponentFrom q k = (if q * 2 powi (53 - k) < 2 ^ 53 then k - 53 else k - 52)"

definition exponentOf :: "rat \<Rightarrow> int" where
  "exponentOf q = exponentFrom q (magnitudeBits q)"

text \<open>The multiple of the unit \<open>u\<close> nearest to \<open>q\<close>, a tie to the even multiple.\<close>

definition roundToUnit :: "rat \<Rightarrow> rat \<Rightarrow> rat" where
  "roundToUnit q u = of_int (roundHalfEven (q / u)) * u"

text \<open>
  The binary64 value nearest to a rational: a significand of 53 bits, so the unit is
  \<open>2\<^sup>e\<close> for the exponent \<open>e\<close> above.
\<close>

definition roundToDouble :: "rat \<Rightarrow> rat" where
  "roundToDouble q =
     (if q = 0 then 0 else sgn q * roundToUnit \<bar>q\<bar> (2 powi exponentOf \<bar>q\<bar>))"

text \<open>
  A GeoJSON position is an array of numbers; where the source casts it to
  \<^verbatim>\<open>[number, number]\<close> it is the pair (longitude, latitude).
\<close>

type_synonym position = "rat \<times> rat"

section \<open>Geometry utilities\<close>

subsection \<open>calculatePolygonCentroid (MapboxMap.tsx)\<close>

text \<open>
  The loop of \<^verbatim>\<open>calculatePolygonCentroid\<close>: a point with at least two entries adds its
  first entry to \<^verbatim>\<open>totalX\<close>, its second to \<^verbatim>\<open>totalY\<close> and one to \<^verbatim>\<open>pointCount\<close>; a shorter
  point is skipped.
\<close>

fun centroidLoop :: "rat list list \<Rightarrow> rat \<times> rat \<times> nat \<Rightarrow> rat \<times> rat \<times> nat" where
  "centroidLoop [] acc = acc"
| "centroidLoop ((x # y # _) # ring) (totalX, totalY, pointCount) =
     centroidLoop ring
       (roundToDouble (totalX + x), roundToDouble (totalY + y), pointCount + 1)"
| "centroidLoop (_ # ring) acc = centroidLoop ring acc"

text \<open>
  \<^verbatim>\<open>coordinates\<close> is the ring list of a polygon; only the outer ring \<^verbatim>\<open>coordinates[0]\<close> is
  read.  \<^verbatim>\<open>null\<close> is \<open>None\<close>.
\<close>

definition calculatePolygonCentroid :: "rat list list list \<Rightarrow> position option" where
  "calculatePolygonCentroid coordinates =
     (case coordinates of
        [] \<Rightarrow> None
      | ring # _ \<Rightarrow>
          if ring = [] then None
          else (case centroidLoop ring (0, 0, 0) of
                  (totalX, totalY, pointCount) \<Rightarrow>
                    if pointCount = 0 then None
                    else Some (roundToDouble (totalX / of_nat pointCount),
                               roundToDouble (totalY / of_nat pointCount))))"

subsection \<open>calculatePolygonCentroid (LeafletMap.tsx)\<close>

text \<open>The Leaflet component has its own copy, which takes the ring itself.\<close>

definition leafletCalculatePolygonCentroid :: "rat list list \<Rightarrow> position option" where
  "leafletCalculatePolygonCentroid ring =
     (if ring = [] then None
      else (case centroidLoop ring (0, 0, 0) of
              (sx, sy, count) \<Rightarrow>
                if count = 0 then None
                else Some (roundToDouble (sx / of_nat count),
                           roundToDouble (sy / of_nat count))))"

text \<open>The square ring of the specification's centroid example, closing vertex included.\<close>

definition squareRing :: "rat list list" where
  "squareRing = [[0, 0], [0, 2], [2, 2], [2, 0], [0, 0]]"

text \<open>The same square, listed from the vertex \<open>(2, 2)\<close>.\<close>

definition squareRingFrom22 :: "rat list list" where
  "squareRingFrom22 = [[2, 2], [2, 0], [0, 0], [0, 2], [2, 2]]"

section \<open>JavaScript values and strings\<close>

text \<open>
  A property value of a feature is a JSON primitive.  A key that is absent reads as
  \<^verbatim>\<open>undefined\<close>.  Strings are lists of code units (restricted to the 8-bit range of \<open>char\<close>).
\<close>

datatype jsval = JNull | JBool bool | JNum rat | JStr string

text \<open>JavaScript truthiness: \<^verbatim>\<open>null\<close>, \<^verbatim>\<open>false\<close>, \<^verbatim>\<open>0\<close> and \<^verbatim>\<open>""\<close> are falsy.\<close>

fun truthy :: "jsval \<Rightarrow> bool" where
  "truthy JNull = False"
| "truthy (JBool b) = b"
| "truthy (JNum n) = (n \<noteq> 0)"
| "truthy (JStr s) = (s \<noteq> [])"

text \<open>
  A property bag is an object: an association list in insertion order.  Assigning to a key
  (\<open>AList.update\<close>) overwrites it in place or appends it.
\<close>

type_synonym props = "(string \<times> jsval) list"

text \<open>Decimal rendering of an integer, as a template string \<^verbatim>\<open>`${n}`\<close> does.\<close>

definition digitChar :: "nat \<Rightarrow> char" where
  "digitChar d = ''0123456789'' ! d"

fun showNat :: "nat \<Rightarrow> string" where
  "showNat n = (if n < 10 then [digitChar n] else showNat (n div 10) @ [digitChar (n mod 10)])"

declare showNat.simps [simp del]

definition showInt :: "int \<Rightarrow> string" where
  "showInt i = (if i < 0 then CHR ''-'' # showNat (nat (- i)) else showNat (nat i))"

text \<open>\<^verbatim>\<open>s.replace(c, '')\<close> with a string pattern removes the first occurrence only.\<close>

fun replaceFirst :: "char \<Rightarrow> string \<Rightarrow> string" where
  "replaceFirst c [] = []"
| "replaceFirst c (x # xs) = (if x = c then xs else x # replaceFirst c xs)"

text \<open>\<^verbatim>\<open>s.substring(start, end)\<close> for \<open>start \<le> end\<close>; both are clamped to the length.\<close>

definition substring :: "nat \<Rightarrow> nat \<Rightarrow> string \<Rightarrow> string" where
  "substring start end s = take (end - start) (drop start s)"

text \<open>
  \<^verbatim>\<open>parseInt(s, 16)\<close>: leading white space is skipped, one sign is read, a prefix \<^verbatim>\<open>0x\<close> or
  \<^verbatim>\<open>0X\<close> is dropped, and the longest run of hexadecimal digits is the value; no digit at
  all gives \<^verbatim>\<open>NaN\<close>, which is \<open>None\<close>.
\<close>

definition isWhiteSpace :: "char \<Rightarrow> bool" where
  "isWhiteSpace c = (of_char c \<in> {9, 10, 11, 12, 13, 32, 160 :: nat})"

definition hexDigits :: "(char \<times> nat) list" where
  "hexDigits =
     [(CHR ''0'', 0), (CHR ''1'', 1), (CHR ''2'', 2), (CHR ''3'', 3), (CHR ''4'', 4),
      (CHR ''5'', 5), (CHR ''6'', 6), (CHR ''7'', 7), (CHR ''8'', 8), (CHR ''9'', 9),
      (CHR ''a'', 10), (CHR ''b'', 11), (CHR ''c'', 12), (CHR ''d'', 13), (CHR ''e'', 14),
      (CHR ''f'', 15), (CHR ''A'', 10), (CHR ''B'', 11), (CHR ''C'', 12), (CHR ''D'', 13),
      (CHR ''E'', 14), (CHR ''F'', 15)]"

definition hexDigit :: "char \<Rightarrow> nat option" where
  "hexDigit c = map_of hexDigits c"

fun hexValue :: "nat \<Rightarrow> string \<Rightarrow> nat" where
  "hexValue acc [] = acc"
| "hexValue acc (c # cs) =
     hexValue (16 * acc + (case hexDigit c of Some d \<Rightarrow> d | None \<Rightarrow> 0)) cs"

definition parseInt16 :: "string \<Rightarrow> int option" where
  "parseInt16 s =
     (let S = dropWhile isWhiteSpace s;
          sign = (case S of c # _ \<Rightarrow> if c = CHR ''-'' then - 1 else 1 | [] \<Rightarrow> (1::int));
          S1 = (case S of c # r \<Rightarrow> if c = CHR ''-'' \<or> c = CHR ''+'' then r else S | [] \<Rightarrow> S);
          S2 = (case S1 of
                  a # b # r \<Rightarrow>
                    if a = CHR ''0'' \<and> (b = CHR ''x'' \<or> b = CHR ''X'') then r else S1
                | _ \<Rightarrow> S1);
          Z = takeWhile (\<lambda>c. hexDigit c \<noteq> None) S2
      in if Z = [] then None else Some (sign * int (hexValue 0 Z)))"

text \<open>\<^verbatim>\<open>v || 255\<close> on a number: \<^verbatim>\<open>NaN\<close> and \<^verbatim>\<open>0\<close> are both falsy.\<close>

definition orElse255 :: "int option \<Rightarrow> int" where
  "orElse255 v = (case v of None \<Rightarrow> 255 | Some n \<Rightarrow> if n = 0 then 255 else n)"

text \<open>
  The hex-to-RGB lines that the component repeats in \<^verbatim>\<open>changeSelectedFill\<close>,
  \<^verbatim>\<open>applyFillToAll\<close>, \<^verbatim>\<open>getDrawData\<close> and the \<^verbatim>\<open>draw.create\<close> handler:
  \<^verbatim>\<open>hex = (color || '#ffffff').replace('#','')\<close>, three calls
  \<^verbatim>\<open>parseInt(hex.substring(i, i+2), 16) || 255\<close> and the string \<^verbatim>\<open>`${r},${g},${b}`\<close>.
\<close>

definition hexToRgb :: "string \<Rightarrow> string" where
  "hexToRgb color =
     (let hex = replaceFirst CHR ''#'' (if color = [] then ''#ffffff'' else color);
          r = orElse255 (parseInt16 (substring 0 2 hex));
          g = orElse255 (parseInt16 (substring 2 4 hex));
          b = orElse255 (parseInt16 (substring 4 6 hex))
      in showInt r @ '','' @ showInt g @ '','' @ showInt b)"

text \<open>
  The decomposition as the specification words it: each of the three channels of a
  well-formed colour \<^verbatim>\<open>#rrggbb\<close> parsed from its two hexadecimal digits, and the full-white
  string when the input is malformed.
\<close>

definition spec_hexToRgb :: "string \<Rightarrow> string" where
  "spec_hexToRgb color =
     (case color of
        [h, r1, r2, g1, g2, b1, b2] \<Rightarrow>
          if h = CHR ''#'' \<and> list_all (\<lambda>c. hexDigit c \<noteq> None) [r1, r2, g1, g2, b1, b2]
          then showNat (hexValue 0 [r1, r2]) @ '','' @ showNat (hexValue 0 [g1, g2]) @ '','' @
               showNat (hexValue 0 [b1, b2])
          else ''255,255,255''
      | _ \<Rightarrow> ''255,255,255'')"

section \<open>GeoJSON data model\<close>

datatype geometry =
    Point position
  | MultiPoint "position list"
  | LineString "position list"
  | MultiLineString "position list list"
  | Polygon "position list list"
  | MultiPolygon "position list list list"
  | GeometryCollection "geometry list"

text \<open>
  A feature: its identifier, its geometry (\<^verbatim>\<open>null\<close> is \<open>None\<close>) and its property bag
  (\<^verbatim>\<open>null\<close> is \<open>None\<close>).  A Feature Collection is the list of its features.
\<close>

record feature =
  fid :: string
  geometry :: "geometry option"
  properties :: "props option"

text \<open>\<^verbatim>\<open>f.properties || {}\<close>\<close>

definition propsOrEmpty :: "feature \<Rightarrow> props" where
  "propsOrEmpty f = (case properties f of None \<Rightarrow> [] | Some p \<Rightarrow> p)"

text \<open>\<^verbatim>\<open>f?.properties?.key\<close>\<close>

definition getProp :: "feature \<Rightarrow> string \<Rightarrow> jsval option" where
  "getProp f key = map_of (propsOrEmpty f) key"

definition truthyOpt :: "jsval option \<Rightarrow> bool" where
  "truthyOpt v = (case v of None \<Rightarrow> False | Some x \<Rightarrow> truthy x)"

text \<open>\<^verbatim>\<open>f.geometry && (f.geometry.type === 'Polygon' || f.geometry.type === 'MultiPolygon')\<close>\<close>

definition isPolygonal :: "feature \<Rightarrow> bool" where
  "isPolygonal f =
     (case geometry f of
        Some (Polygon _) \<Rightarrow> True
      | Some (MultiPolygon _) \<Rightarrow> True
      | _ \<Rightarrow> False)"

section \<open>Vertex and label sampler\<close>

text \<open>
  \<^verbatim>\<open>computeVertexAngle\<close> returns \<^verbatim>\<open>(Math.atan2(dy, dx) * 180) / Math.PI\<close>.  The value is kept
  symbolic: \<open>Atan2Deg dy dx\<close> names that number by the two arguments it is computed from.
\<close>

datatype angle = Atan2Deg rat rat

record VertEntry =
  coord :: position
  angle :: angle

definition computeVertexAngle :: "position \<Rightarrow> position option \<Rightarrow> position option \<Rightarrow> angle" where
  "computeVertexAngle cur prv nxt =
     (case nxt of
        Some n \<Rightarrow>
          Atan2Deg (roundToDouble (snd n - snd cur)) (roundToDouble (fst n - fst cur))
      | None \<Rightarrow>
          (case prv of
             Some p \<Rightarrow>
               Atan2Deg (roundToDouble (snd cur - snd p)) (roundToDouble (fst cur - fst p))
           | None \<Rightarrow> Atan2Deg 0 0))"

text \<open>The loop over a line: \<^verbatim>\<open>prev\<close> and \<^verbatim>\<open>next\<close> are \<^verbatim>\<open>null\<close> at the two ends.\<close>

definition lineEntries :: "position list \<Rightarrow> VertEntry list" where
  "lineEntries coords =
     map (\<lambda>i. \<lparr>coord = coords ! i,
               angle = computeVertexAngle (coords ! i)
                         (if i > 0 then Some (coords ! (i - 1)) else None)
                         (if i + 1 < length coords then Some (coords ! (i + 1)) else None)\<rparr>)
         [0..<length coords]"

text \<open>
  The loop over the outer ring of a polygon: \<^verbatim>\<open>prev\<close> of the first vertex is
  \<^verbatim>\<open>ring[ring.length - 2] ?? ring[ring.length - 1]\<close>, \<^verbatim>\<open>next\<close> wraps around.
\<close>

definition ringEntries :: "position list \<Rightarrow> VertEntry list" where
  "ringEntries ring =
     map (\<lambda>i. \<lparr>coord = ring ! i,
               angle = computeVertexAngle (ring ! i)
                         (Some (if i > 0 then ring ! (i - 1)
                                else if length ring \<ge> 2 then ring ! (length ring - 2)
                                else ring ! (length ring - 1)))
                         (Some (ring ! ((i + 1) mod length ring)))\<rparr>)
         [0..<length ring]"

text \<open>
  \<^verbatim>\<open>collectVertexEntriesFromGeometry\<close> pushes onto \<^verbatim>\<open>out\<close>; the model returns the entries
  pushed, in order.
\<close>

fun collectVertexEntriesFromGeometry :: "geometry \<Rightarrow> VertEntry list" where
  "collectVertexEntriesFromGeometry (Point p) = [\<lparr>coord = p, angle = Atan2Deg 0 0\<rparr>]"
| "collectVertexEntriesFromGeometry (MultiPoint coords) = lineEntries coords"
| "collectVertexEntriesFromGeometry (LineString coords) = lineEntries coords"
| "collectVertexEntriesFromGeometry (MultiLineString lines) = concat (map lineEntries lines)"
| "collectVertexEntriesFromGeometry (Polygon rings) =
     (case rings of [] \<Rightarrow> [] | ring # _ \<Rightarrow> ringEntries ring)"
| "collectVertexEntriesFromGeometry (MultiPolygon polygons) =
     concat (map (\<lambda>polygon. case polygon of [] \<Rightarrow> [] | ring # _ \<Rightarrow> ringEntries ring) polygons)"
| "collectVertexEntriesFromGeometry (GeometryCollection geometries) =
     concat (map collectVertexEntriesFromGeometry geometries)"

text \<open>
  \<^verbatim>\<open>x.toFixed(6)\<close>: the sign is split off first, the magnitude is rounded to the nearest
  multiple of \<open>10\<^sup>-\<^sup>6\<close> (the larger one on a tie) and printed with six decimals.  JavaScript
  switches to exponent notation from \<open>10\<^sup>2\<^sup>1\<close> on; coordinates are far below, and the model
  prints fixed notation throughout.
\<close>

definition fixed6 :: "rat \<Rightarrow> string" where
  "fixed6 x =
     (let n = nat \<lfloor>x * 1000000 + 1 / 2\<rfloor>;
          m = showNat n;
          padded = replicate (7 - length m) CHR ''0'' @ m
      in take (length padded - 6) padded @ ''.'' @ drop (length padded - 6) padded)"

definition toFixed6 :: "rat \<Rightarrow> string" where
  "toFixed6 x = (if x < 0 then CHR ''-'' # fixed6 (- x) else fixed6 x)"

text \<open>The identity key of the deduplication: \<^verbatim>\<open>`${lng.toFixed(6)}|${lat.toFixed(6)}`\<close>.\<close>

definition positionKey :: "position \<Rightarrow> string" where
  "positionKey p = toFixed6 (fst p) @ ''|'' @ toFixed6 (snd p)"

definition coordKey :: "VertEntry \<Rightarrow> string" where
  "coordKey e = positionKey (coord e)"

fun dedupLoop :: "string set \<Rightarrow> VertEntry list \<Rightarrow> VertEntry list" where
  "dedupLoop seen [] = []"
| "dedupLoop seen (e # es) =
     (if coordKey e \<in> seen then dedupLoop seen es
      else e # dedupLoop (insert (coordKey e) seen) es)"

text \<open>All entries pushed for a collection, before deduplication.\<close>

definition collectedEntries :: "feature list \<Rightarrow> VertEntry list" where
  "collectedEntries features =
     concat (map (\<lambda>f. case geometry f of
                         None \<Rightarrow> []
                       | Some g \<Rightarrow> collectVertexEntriesFromGeometry g) features)"

definition extractVertexEntriesFromFeatureCollection :: "feature list \<Rightarrow> VertEntry list" where
  "extractVertexEntriesFromFeatureCollection features = dedupLoop {} (collectedEntries features)"

text \<open>
  The cell index of one coordinate in \<^verbatim>\<open>sampleByGrid\<close>, \<^verbatim>\<open>Math.floor(x / cellDeg)\<close>: the floor
  of the rounded quotient.
\<close>

definition cellIndex :: "rat \<Rightarrow> rat \<Rightarrow> int" where
  "cellIndex cellDeg x = \<lfloor>roundToDouble (x / cellDeg)\<rfloor>"

text \<open>
  \<^verbatim>\<open>sampleByGrid\<close>: a \<^verbatim>\<open>Map\<close> from the cell key \<^verbatim>\<open>`${kx}|${ky}`\<close> to the first entry seen in the
  cell; \<^verbatim>\<open>Array.from(seen.values())\<close> lists them in insertion order.
\<close>

definition cellKey :: "rat \<Rightarrow> VertEntry \<Rightarrow> string" where
  "cellKey cellDeg e =
     (let kx = cellIndex cellDeg (fst (coord e));
          ky = cellIndex cellDeg (snd (coord e))
      in showInt kx @ ''|'' @ showInt ky)"

fun sampleLoop :: "rat \<Rightarrow> (string \<times> VertEntry) list \<Rightarrow> VertEntry list \<Rightarrow> (string \<times> VertEntry) list" where
  "sampleLoop cellDeg seen [] = seen"
| "sampleLoop cellDeg seen (e # es) =
     (if map_of seen (cellKey cellDeg e) = None
      then sampleLoop cellDeg (seen @ [(cellKey cellDeg e, e)]) es
      else sampleLoop cellDeg seen es)"

definition sampleByGrid :: "VertEntry list \<Rightarrow> rat \<Rightarrow> VertEntry list" where
  "sampleByGrid entries cellDeg = map snd (sampleLoop cellDeg [] entries)"

record tier =
  tid :: nat
  minzoom :: nat
  cellDeg :: rat
  textSizeRange :: "nat \<times> nat"

text \<open>
  The four tiers; a decimal literal such as \<^verbatim>\<open>0.06\<close> denotes the binary64 value nearest
  to it.
\<close>

definition tiers :: "tier list" where
  "tiers =
     [\<lparr>tid = 0, minzoom = 0, cellDeg = roundToDouble (6 / 100), textSizeRange = (8, 10)\<rparr>,
      \<lparr>tid = 1, minzoom = 8, cellDeg = roundToDouble (2 / 100), textSizeRange = (9, 12)\<rparr>,
      \<lparr>tid = 2, minzoom = 12, cellDeg = roundToDouble (5 / 1000), textSizeRange = (11, 14)\<rparr>,
      \<lparr>tid = 3, minzoom = 14, cellDeg = roundToDouble (15 / 10000), textSizeRange = (13, 16)\<rparr>]"


section \<open>The draw plugin's feature store\<close>

text \<open>
  Modelled from the spec: the draw plugin (an external library) is an in-memory feature
  store with \<^verbatim>\<open>getAll\<close>, \<^verbatim>\<open>get\<close>, \<^verbatim>\<open>set\<close>, \<^verbatim>\<open>add\<close>, \<^verbatim>\<open>delete\<close>, \<^verbatim>\<open>setFeatureProperty\<close>,
  \<^verbatim>\<open>getSelectedIds\<close> and \<^verbatim>\<open>changeMode\<close>.  The store is the ordered list of its features and
  the list of selected identifiers.  Features are values here: \<^verbatim>\<open>get\<close> and \<^verbatim>\<open>getAll\<close> hand out
  copies.
\<close>

record draw_state =
  stored :: "feature list"
  selectedIds :: "string list"

definition draw_getAll :: "draw_state \<Rightarrow> feature list" where
  "draw_getAll d = stored d"

definition draw_get :: "draw_state \<Rightarrow> string \<Rightarrow> feature option" where
  "draw_get d i = find (\<lambda>f. fid f = i) (stored d)"

definition draw_getSelectedIds :: "draw_state \<Rightarrow> string list" where
  "draw_getSelectedIds d = selectedIds d"

text \<open>\<^verbatim>\<open>delete\<close> removes the feature and deselects it.\<close>

definition draw_delete :: "draw_state \<Rightarrow> string \<Rightarrow> draw_state" where
  "draw_delete d i =
     \<lparr>stored = filter (\<lambda>f. fid f \<noteq> i) (stored d),
      selectedIds = filter (\<lambda>j. j \<noteq> i) (selectedIds d)\<rparr>"

text \<open>
  \<^verbatim>\<open>add\<close> stores a feature with its \<^verbatim>\<open>properties || {}\<close>: a feature whose identifier is in
  the store replaces the stored one in place, any other feature is appended.
\<close>

definition normalised :: "feature \<Rightarrow> feature" where
  "normalised f = f\<lparr>properties := Some (propsOrEmpty f)\<rparr>"

definition draw_add :: "draw_state \<Rightarrow> feature \<Rightarrow> draw_state" where
  "draw_add d f =
     (if draw_get d (fid f) = None
      then d\<lparr>stored := stored d @ [normalised f]\<rparr>
      else d\<lparr>stored := map (\<lambda>g. if fid g = fid f then normalised f else g) (stored d)\<rparr>)"

text \<open>
  \<^verbatim>\<open>setFeatureProperty(id, key, value)\<close>; the value \<^verbatim>\<open>undefined\<close> is \<open>None\<close> and leaves the
  key reading as \<^verbatim>\<open>undefined\<close>.
\<close>

definition draw_setFeatureProperty :: "draw_state \<Rightarrow> string \<Rightarrow> string \<Rightarrow> jsval option \<Rightarrow> draw_state" where
  "draw_setFeatureProperty d i key v =
     d\<lparr>stored :=
         map (\<lambda>g. if fid g = i
                   then g\<lparr>properties :=
                          Some (case v of
                                  Some x \<Rightarrow> AList.update key x (propsOrEmpty g)
                                | None \<Rightarrow> AList.delete key (propsOrEmpty g))\<rparr>
                   else g)
             (stored d)\<rparr>"

text \<open>\<^verbatim>\<open>set\<close> replaces the contents of the store by the features of the collection.\<close>

definition draw_set :: "draw_state \<Rightarrow> feature list \<Rightarrow> draw_state" where
  "draw_set d fs =
     fold (\<lambda>f d'. draw_add d' f) fs
       \<lparr>stored = [], selectedIds = filter (\<lambda>i. i \<in> fid ` set fs) (selectedIds d)\<rparr>"

text \<open>\<^verbatim>\<open>changeMode('simple_select', { featureIds: ids })\<close> selects the listed features it holds.\<close>

definition draw_changeMode_simple_select :: "draw_state \<Rightarrow> string list \<Rightarrow> draw_state" where
  "draw_changeMode_simple_select d ids =
     d\<lparr>selectedIds := filter (\<lambda>i. draw_get d i \<noteq> None) ids\<rparr>"

section \<open>The map engine's layer and source registry\<close>

text \<open>
  Modelled from the spec: the map engine (an external library) registers sources and layers
  under string identifiers (add, remove and move a layer, add and remove a source, query
  either) and fits its view to bounds.  Layers are listed bottom to top.  Paint and layout
  constants are left out, except the zoom threshold and the overlap switch of a label tier.
  The operations are total: the component removes a layer or a source before it adds one
  under the same identifier, and no layer of another owner uses its sources.
\<close>

datatype layer_type = Fill | Line | Symbol

record layer =
  lid :: string
  ltype :: layer_type
  lsource :: string
  lminzoom :: "nat option"
  allowOverlap :: bool

text \<open>One point of a coordinate-label source, as \<^verbatim>\<open>buildPointFeaturesFromVertices\<close> builds it.\<close>

record label_point =
  lp_id :: string
  lp_label :: string
  lp_angle :: angle
  lp_coord :: position

datatype source_data = Features "feature list" | Labels "label_point list"

type_synonym bounds = "position \<times> position"

record map_state =
  layers :: "layer list"
  sources :: "string \<rightharpoonup> source_data"
  fits :: "bounds list"

definition getLayer :: "map_state \<Rightarrow> string \<Rightarrow> layer option" where
  "getLayer m i = find (\<lambda>l. lid l = i) (layers m)"

definition removeLayer :: "map_state \<Rightarrow> string \<Rightarrow> map_state" where
  "removeLayer m i = m\<lparr>layers := filter (\<lambda>l. lid l \<noteq> i) (layers m)\<rparr>"

definition getSource :: "map_state \<Rightarrow> string \<Rightarrow> source_data option" where
  "getSource m i = sources m i"

definition removeSource :: "map_state \<Rightarrow> string \<Rightarrow> map_state" where
  "removeSource m i = m\<lparr>sources := (sources m)(i := None)\<rparr>"

definition addSource :: "map_state \<Rightarrow> string \<Rightarrow> source_data \<Rightarrow> map_state" where
  "addSource m i d = m\<lparr>sources := (sources m)(i \<mapsto> d)\<rparr>"

text \<open>\<^verbatim>\<open>addLayer(layer)\<close> without a second argument puts the layer on top.\<close>

definition addLayer :: "map_state \<Rightarrow> layer \<Rightarrow> map_state" where
  "addLayer m l = m\<lparr>layers := layers m @ [l]\<rparr>"

text \<open>
  \<^verbatim>\<open>moveLayer(id, beforeId)\<close> puts the layer just below \<^verbatim>\<open>beforeId\<close>; without \<^verbatim>\<open>beforeId\<close> it
  puts the layer on top.  An unknown layer is not moved.
\<close>

definition moveLayer :: "map_state \<Rightarrow> string \<Rightarrow> string option \<Rightarrow> map_state" where
  "moveLayer m i beforeId =
     (case getLayer m i of
        None \<Rightarrow> m
      | Some l \<Rightarrow>
          (let others = filter (\<lambda>x. lid x \<noteq> i) (layers m)
           in case beforeId of
                None \<Rightarrow> m\<lparr>layers := others @ [l]\<rparr>
              | Some b \<Rightarrow>
                  if b = i \<or> find (\<lambda>x. lid x = b) others = None then m
                  else m\<lparr>layers := takeWhile (\<lambda>x. lid x \<noteq> b) others @ [l] @
                                    dropWhile (\<lambda>x. lid x \<noteq> b) others\<rparr>))"

text \<open>
  \<^verbatim>\<open>LngLatBounds\<close>: south-west and north-east corner; \<^verbatim>\<open>bounds.extend(p)\<close> grows the box to
  hold \<open>p\<close>.
\<close>

definition bounds_extend :: "bounds \<Rightarrow> position \<Rightarrow> bounds" where
  "bounds_extend b p =
     ((min (fst (fst b)) (fst p), min (snd (fst b)) (snd p)),
      (max (fst (snd b)) (fst p), max (snd (snd b)) (snd p)))"

definition fitBounds :: "map_state \<Rightarrow> bounds \<Rightarrow> map_state" where
  "fitBounds m b = m\<lparr>fits := fits m @ [b]\<rparr>"

section \<open>Bounds of a collection\<close>

text \<open>\<^verbatim>\<open>extendBoundsWithGeometry\<close>: every position of the geometry, holes included.\<close>

fun extendBoundsWithGeometry :: "geometry \<Rightarrow> bounds \<Rightarrow> bounds" where
  "extendBoundsWithGeometry (Point p) b = bounds_extend b p"
| "extendBoundsWithGeometry (MultiPoint ps) b = fold (\<lambda>p b'. bounds_extend b' p) ps b"
| "extendBoundsWithGeometry (LineString ps) b = fold (\<lambda>p b'. bounds_extend b' p) ps b"
| "extendBoundsWithGeometry (MultiLineString ls) b = fold (\<lambda>p b'. bounds_extend b' p) (concat ls) b"
| "extendBoundsWithGeometry (Polygon ls) b = fold (\<lambda>p b'. bounds_extend b' p) (concat ls) b"
| "extendBoundsWithGeometry (MultiPolygon ps) b = fold (\<lambda>p b'. bounds_extend b' p) (concat (concat ps)) b"
| "extendBoundsWithGeometry (GeometryCollection gs) b = fold extendBoundsWithGeometry gs b"

definition extendBoundsWithFeature :: "feature \<Rightarrow> bounds \<Rightarrow> bounds" where
  "extendBoundsWithFeature f b =
     (case geometry f of None \<Rightarrow> b | Some g \<Rightarrow> extendBoundsWithGeometry g b)"

text \<open>
  \<^verbatim>\<open>findCoordinate\<close> searches the nested coordinate arrays depth first for the first pair of
  numbers; \<^verbatim>\<open>getCoordinateFromGeometry\<close> takes the first child of a collection that has one.
\<close>

definition firstOf :: "position list \<Rightarrow> position option" where
  "firstOf ps = (case ps of [] \<Rightarrow> None | p # _ \<Rightarrow> Some p)"

fun getCoordinateFromGeometry :: "geometry \<Rightarrow> position option" where
  "getCoordinateFromGeometry (Point p) = Some p"
| "getCoordinateFromGeometry (MultiPoint ps) = firstOf ps"
| "getCoordinateFromGeometry (LineString ps) = firstOf ps"
| "getCoordinateFromGeometry (MultiLineString ls) = firstOf (concat ls)"
| "getCoordinateFromGeometry (Polygon ls) = firstOf (concat ls)"
| "getCoordinateFromGeometry (MultiPolygon ps) = firstOf (concat (concat ps))"
| "getCoordinateFromGeometry (GeometryCollection gs) =
     (case filter (\<lambda>c. c \<noteq> None) (map getCoordinateFromGeometry gs) of
        [] \<Rightarrow> None
      | c # _ \<Rightarrow> c)"

definition getFirstCoordinate :: "feature \<Rightarrow> position option" where
  "getFirstCoordinate f =
     (case geometry f of None \<Rightarrow> None | Some g \<Rightarrow> getCoordinateFromGeometry g)"

text \<open>
  \<^verbatim>\<open>fitToCollection\<close>: nothing for an empty collection or a first feature without a
  coordinate; otherwise one \<^verbatim>\<open>map.fitBounds\<close> with the box of all positions.
\<close>

definition fitToCollection :: "map_state \<Rightarrow> feature list \<Rightarrow> map_state" where
  "fitToCollection m collection =
     (case collection of
        [] \<Rightarrow> m
      | f0 # _ \<Rightarrow>
          (case getFirstCoordinate f0 of
             None \<Rightarrow> m
           | Some firstCoordinate \<Rightarrow>
               fitBounds m (fold extendBoundsWithFeature collection
                                 (firstCoordinate, firstCoordinate))))"

section \<open>Layer synchronizer\<close>

definition buildPointFeaturesFromVertices :: "VertEntry list \<Rightarrow> label_point list" where
  "buildPointFeaturesFromVertices entries =
     map (\<lambda>idx. \<lparr>lp_id = ''vertex-label-'' @ showNat idx,
                 lp_label = toFixed6 (snd (coord (entries ! idx))) @ '', '' @
                            toFixed6 (fst (coord (entries ! idx))),
                 lp_angle = angle (entries ! idx),
                 lp_coord = coord (entries ! idx)\<rparr>)
         [0..<length entries]"

definition coordLayerId :: "nat \<Rightarrow> string" where
  "coordLayerId i = ''coord-labels-layer-'' @ showNat i"

definition coordSourceId :: "nat \<Rightarrow> string" where
  "coordSourceId i = ''coord-labels-source-'' @ showNat i"

text \<open>The body of the loop over the tiers in \<^verbatim>\<open>upsertCoordinateLabels\<close>.\<close>

definition addTier :: "VertEntry list \<Rightarrow> tier \<Rightarrow> map_state \<Rightarrow> map_state" where
  "addTier entries t m =
     (let sampled = sampleByGrid entries (cellDeg t)
      in if sampled = [] then m
         else addLayer
                (addSource m (coordSourceId (tid t))
                   (Labels (buildPointFeaturesFromVertices sampled)))
                \<lparr>lid = coordLayerId (tid t), ltype = Symbol, lsource = coordSourceId (tid t),
                 lminzoom = Some (minzoom t), allowOverlap = (tid t \<ge> 3)\<rparr>)"

text \<open>The closing loop that moves the fill and stroke layers below the lowest label tier.\<close>

definition moveBelowLabels :: "string \<Rightarrow> map_state \<Rightarrow> map_state" where
  "moveBelowLabels customLayerId m =
     (if getLayer m customLayerId \<noteq> None \<and> getLayer m (coordLayerId 0) \<noteq> None
      then moveLayer m customLayerId (Some (coordLayerId 0))
      else m)"

text \<open>The two opening loops that remove the old label layers and sources.\<close>

definition removeOldLayers :: "nat list \<Rightarrow> map_state \<Rightarrow> map_state" where
  "removeOldLayers is m =
     fold (\<lambda>i m'. if getLayer m' (coordLayerId i) \<noteq> None
                    then removeLayer m' (coordLayerId i) else m') is m"

definition removeOldSources :: "nat list \<Rightarrow> map_state \<Rightarrow> map_state" where
  "removeOldSources is m =
     fold (\<lambda>i m'. if getSource m' (coordSourceId i) \<noteq> None
                    then removeSource m' (coordSourceId i) else m') is m"

definition upsertCoordinateLabels :: "map_state \<Rightarrow> feature list \<Rightarrow> map_state" where
  "upsertCoordinateLabels m collection =
     (let entries = extractVertexEntriesFromFeatureCollection collection;
          m1 = removeOldLayers [0, 1, 2, 3] m;
          m2 = removeOldSources [0, 1, 2, 3] m1
      in if entries = [] then m2
         else fold moveBelowLabels
                [''custom-colored-polygons-layer'', ''custom-stroked-polygons-layer'']
                (fold (addTier entries) tiers m2))"

text \<open>The three filters of \<^verbatim>\<open>updateCustomColoredLayer\<close>.\<close>

definition coloredFeatures :: "feature list \<Rightarrow> feature list" where
  "coloredFeatures fs =
     filter (\<lambda>f. truthyOpt (getProp f ''fillColor'') \<and> isPolygonal f) fs"

definition strokedFeatures :: "feature list \<Rightarrow> feature list" where
  "strokedFeatures fs =
     filter (\<lambda>f. (truthyOpt (getProp f ''strokeColor'') \<or> truthyOpt (getProp f ''strokeWidth''))
                 \<and> isPolygonal f) fs"

definition asArrays :: "position list list \<Rightarrow> rat list list list" where
  "asArrays rings = map (map (\<lambda>p. [fst p, snd p])) rings"

text \<open>
  The text point of one labelled polygon: at the centroid of the polygon, or of the first
  polygon of a multi-polygon; \<open>None\<close> when there is no centroid.
\<close>

definition textFeature :: "feature \<Rightarrow> feature option" where
  "textFeature f =
     (let centroid =
            (case geometry f of
               Some (Polygon rings) \<Rightarrow> calculatePolygonCentroid (asArrays rings)
             | Some (MultiPolygon polygons) \<Rightarrow>
                 (case polygons of
                    [] \<Rightarrow> None
                  | firstPolygon # _ \<Rightarrow> calculatePolygonCentroid (asArrays firstPolygon))
             | _ \<Rightarrow> None)
      in case centroid of
           None \<Rightarrow> None
         | Some c \<Rightarrow>
             Some \<lparr>fid = ''text-'' @ fid f,
                   geometry = Some (Point c),
                   properties =
                     Some ((case getProp f ''labelText'' of
                              None \<Rightarrow> []
                            | Some v \<Rightarrow> [(''labelText'', v)]) @
                           [(''originalId'', JStr (fid f))])\<rparr>)"

definition textFeatures :: "feature list \<Rightarrow> feature list" where
  "textFeatures fs =
     List.map_filter textFeature
       (filter (\<lambda>f. truthyOpt (getProp f ''labelText'') \<and> isPolygonal f) fs)"

text \<open>
  Remove an overlay's layer and source if present, then add both again when there is
  something to show.
\<close>

definition rebuildOverlay :: "string \<Rightarrow> string \<Rightarrow> layer_type \<Rightarrow> feature list \<Rightarrow> map_state \<Rightarrow> map_state" where
  "rebuildOverlay sourceId layerId kind fs m =
     (let m1 = (if getLayer m layerId \<noteq> None then removeLayer m layerId else m);
          m2 = (if getSource m1 sourceId \<noteq> None then removeSource m1 sourceId else m1)
      in if length fs > 0
         then addLayer (addSource m2 sourceId (Features fs))
                \<lparr>lid = layerId, ltype = kind, lsource = sourceId, lminzoom = None,
                 allowOverlap = False\<rparr>
         else m2)"

text \<open>
  \<^verbatim>\<open>updateCustomColoredLayer\<close>, one synchronization pass: fill overlay, stroke overlay,
  coordinate labels, text overlay (moved to the top after it is added).
\<close>

definition updateCustomColoredLayer :: "map_state \<Rightarrow> feature list \<Rightarrow> map_state" where
  "updateCustomColoredLayer m fs =
     (let m1 = rebuildOverlay ''custom-colored-polygons'' ''custom-colored-polygons-layer'' Fill
                 (coloredFeatures fs) m;
          m2 = rebuildOverlay ''custom-stroked-polygons'' ''custom-stroked-polygons-layer'' Line
                 (strokedFeatures fs) m1;
          m3 = upsertCoordinateLabels m2 fs;
          m4 = rebuildOverlay ''custom-text-labels'' ''custom-text-labels-layer'' Symbol
                 (textFeatures fs) m3
      in if length (textFeatures fs) > 0
         then moveLayer m4 ''custom-text-labels-layer'' None
         else m4)"

section \<open>The component and its imperative handle\<close>

text \<open>
  The component's references: the map (\<^verbatim>\<open>mapRef\<close>), the draw control (\<^verbatim>\<open>drawRef\<close>), both
  \<open>None\<close> until the map is initialised, and the collections handed to the
  \<^verbatim>\<open>onDrawChange\<close> callback so far.
\<close>

record component =
  mapRef :: "map_state option"
  drawRef :: "draw_state option"
  drawChanges :: "feature list list"

text \<open>
  The callback of \<^verbatim>\<open>all.features.map\<close> in \<^verbatim>\<open>getDrawData\<close>.  \<^verbatim>\<open>.replace\<close> exists on strings
  only: a truthy \<^verbatim>\<open>fillColor\<close> of another type raises a TypeError, which is \<open>None\<close>.
\<close>

definition exportFeature :: "feature \<Rightarrow> feature option" where
  "exportFeature f =
     (let props = propsOrEmpty f
      in if truthyOpt (map_of props ''fillColor'') \<and> \<not> truthyOpt (map_of props ''fillRgb'')
         then (case map_of props ''fillColor'' of
                 Some (JStr color) \<Rightarrow>
                   Some (f\<lparr>properties :=
                            Some (AList.update ''fillRgb'' (JStr (hexToRgb color)) props)\<rparr>)
               | _ \<Rightarrow> None)
         else Some (f\<lparr>properties := Some props\<rparr>))"

text \<open>
  \<^verbatim>\<open>getDrawData\<close>: the empty collection without a draw control; the mapped collection; or,
  when the mapping raised, what the \<^verbatim>\<open>catch\<close> returns, \<^verbatim>\<open>drawRef.current.getAll()\<close>.
\<close>

definition getDrawData :: "component \<Rightarrow> feature list" where
  "getDrawData st =
     (case drawRef st of
        None \<Rightarrow> []
      | Some draw \<Rightarrow>
          (case those (map exportFeature (draw_getAll draw)) of
             Some fs \<Rightarrow> fs
           | None \<Rightarrow> draw_getAll draw))"

text \<open>
  The options of \<^verbatim>\<open>loadGeoJson\<close>: \<open>None\<close> when the argument is omitted, \<open>Some None\<close> when
  its \<^verbatim>\<open>fitBounds\<close> field is \<^verbatim>\<open>undefined\<close>.  \<open>wantsFit\<close> is \<^verbatim>\<open>options?.fitBounds !== false\<close>.
\<close>

type_synonym load_options = "bool option option"

definition wantsFit :: "load_options \<Rightarrow> bool" where
  "wantsFit options = (options \<noteq> Some (Some False))"

definition loadGeoJson :: "feature list \<Rightarrow> load_options \<Rightarrow> component \<Rightarrow> component" where
  "loadGeoJson collection options st =
     (case (mapRef st, drawRef st) of
        (Some m, Some draw) \<Rightarrow>
          (let processedCollection = map normalised collection;
               draw1 = draw_set draw processedCollection;
               m1 = (if wantsFit options then fitToCollection m processedCollection else m);
               m2 = upsertCoordinateLabels m1 processedCollection;
               m3 = updateCustomColoredLayer m2 processedCollection
           in \<lparr>mapRef = Some m3, drawRef = Some draw1,
               drawChanges = drawChanges st @ [draw_getAll draw1]\<rparr>)
      | _ \<Rightarrow> st)"

text \<open>
  The body of \<^verbatim>\<open>ids.forEach\<close> in \<^verbatim>\<open>changeSelectedFill\<close>: read the feature, set \<^verbatim>\<open>fillColor\<close>,
  \<^verbatim>\<open>fillOpacity\<close> (when a number is given) and \<^verbatim>\<open>fillRgb\<close>, write the three properties to the
  store, then delete the feature and add it again under the same identifier.
\<close>

definition styledFill :: "string \<Rightarrow> rat option \<Rightarrow> feature \<Rightarrow> feature" where
  "styledFill color opacity f =
     (let props1 = AList.update ''fillColor'' (JStr color) (propsOrEmpty f);
          props2 = (case opacity of
                      Some v \<Rightarrow> AList.update ''fillOpacity'' (JNum v) props1
                    | None \<Rightarrow> props1);
          props3 = AList.update ''fillRgb'' (JStr (hexToRgb color)) props2
      in f\<lparr>properties := Some props3\<rparr>)"

definition fillSelected :: "string \<Rightarrow> rat option \<Rightarrow> string \<Rightarrow> draw_state \<Rightarrow> draw_state" where
  "fillSelected color opacity i draw =
     (case draw_get draw i of
        None \<Rightarrow> draw
      | Some f0 \<Rightarrow>
          (let f = styledFill color opacity f0;
               d1 = draw_setFeatureProperty draw i ''fillColor'' (getProp f ''fillColor'');
               d2 = draw_setFeatureProperty d1 i ''fillOpacity'' (getProp f ''fillOpacity'');
               d3 = draw_setFeatureProperty d2 i ''fillRgb'' (getProp f ''fillRgb'');
               toAdd = f\<lparr>fid := i\<rparr>
           in draw_add (draw_delete d3 i) toAdd))"

text \<open>What follows the loop in every mutator: emit the change and synchronize the overlays.\<close>

definition emitAndSync :: "draw_state \<Rightarrow> component \<Rightarrow> component" where
  "emitAndSync draw st =
     (let data = draw_getAll draw
      in \<lparr>mapRef = (case mapRef st of
                      None \<Rightarrow> None
                    | Some m \<Rightarrow> Some (updateCustomColoredLayer m data)),
          drawRef = Some draw,
          drawChanges = drawChanges st @ [data]\<rparr>)"

definition changeSelectedFill :: "string \<Rightarrow> rat option \<Rightarrow> component \<Rightarrow> component" where
  "changeSelectedFill color opacity st =
     (case drawRef st of
        None \<Rightarrow> st
      | Some draw \<Rightarrow>
          (let ids = draw_getSelectedIds draw
           in if length ids = 0 then st
              else emitAndSync
                     (draw_changeMode_simple_select
                        (fold (fillSelected color opacity) ids draw) ids)
                     st))"

text \<open>
  The body of \<^verbatim>\<open>polygonFeatures.forEach\<close> in \<^verbatim>\<open>applyFillToAll\<close>; \<^verbatim>\<open>f\<close> is a feature of the
  collection read before the loop.
\<close>

definition fillOne :: "string \<Rightarrow> rat option \<Rightarrow> feature \<Rightarrow> draw_state \<Rightarrow> draw_state" where
  "fillOne color opacity f0 draw =
     draw_add (draw_delete draw (fid f0)) (styledFill color opacity f0)"

definition applyFillToAll :: "string \<Rightarrow> rat option \<Rightarrow> component \<Rightarrow> component" where
  "applyFillToAll color opacity st =
     (case drawRef st of
        None \<Rightarrow> st
      | Some draw \<Rightarrow>
          emitAndSync
            (fold (fillOne color opacity) (filter isPolygonal (draw_getAll draw)) draw) st)"

text \<open>
  The second \<^verbatim>\<open>draw.create\<close> listener, on one created feature: white, opacity 0.2 and the
  derived \<^verbatim>\<open>fillRgb\<close>, each only where the key is \<^verbatim>\<open>undefined\<close>.  A truthy \<^verbatim>\<open>fillColor\<close> that is
  not a string raises a TypeError (\<open>None\<close>), which ends the listener.
\<close>

definition createDefaults :: "feature \<Rightarrow> feature option" where
  "createDefaults f =
     (let props0 = propsOrEmpty f;
          props1 = (if map_of props0 ''fillColor'' = None
                    then AList.update ''fillColor'' (JStr ''#ffffff'') props0 else props0);
          props2 = (if map_of props1 ''fillOpacity'' = None
                    then AList.update ''fillOpacity'' (JNum (roundToDouble (2 / 10))) props1 else props1)
      in if map_of props2 ''fillRgb'' = None
         then (case map_of props2 ''fillColor'' of
                 Some (JStr color) \<Rightarrow>
                   Some (f\<lparr>properties :=
                            Some (AList.update ''fillRgb'' (JStr (hexToRgb color)) props2)\<rparr>)
               | v \<Rightarrow>
                   if truthyOpt v then None
                   else Some (f\<lparr>properties :=
                                 Some (AList.update ''fillRgb'' (JStr (hexToRgb ''#ffffff''))
                                         props2)\<rparr>))
         else Some (f\<lparr>properties := Some props2\<rparr>))"

section \<open>File import and export\<close>

text \<open>
  Modelled from the spec: the file collaborator serializes \<^verbatim>\<open>getDrawData()\<close> with
  \<^verbatim>\<open>JSON.stringify\<close> and reads a file back with \<^verbatim>\<open>JSON.parse\<close>, both built into the
  platform.  On the values of this model (no \<^verbatim>\<open>undefined\<close>, no \<^verbatim>\<open>NaN\<close>) parsing undoes
  serializing, so the text of a file is represented by what it parses to: a FeatureCollection,
  another JSON value, or no JSON at all.
\<close>

datatype file_text = CollectionText "feature list" | OtherJsonText | MalformedText

definition exportGeoJson :: "component option \<Rightarrow> file_text option" where
  "exportGeoJson handle =
     (case handle of
        None \<Rightarrow> None
      | Some st \<Rightarrow> Some (CollectionText (getDrawData st)))"

text \<open>
  \<^verbatim>\<open>handleFileUpload\<close>: a text that does not parse, or that is no FeatureCollection, raises
  and only alerts; the component is left as it is.
\<close>

definition handleFileUpload :: "file_text \<Rightarrow> component \<Rightarrow> component" where
  "handleFileUpload text st =
     (case text of
        CollectionText json \<Rightarrow> loadGeoJson json (Some (Some True)) st
      | _ \<Rightarrow> st)"

section \<open>Observations and sample inputs\<close>

text \<open>The feature that the draw store holds under an identifier, and one of its properties.\<close>

definition storedFeature :: "component \<Rightarrow> string \<Rightarrow> feature option" where
  "storedFeature st i = (case drawRef st of None \<Rightarrow> None | Some draw \<Rightarrow> draw_get draw i)"

definition featureProp :: "component \<Rightarrow> string \<Rightarrow> string \<Rightarrow> jsval option" where
  "featureProp st i key =
     (case storedFeature st i of None \<Rightarrow> None | Some f \<Rightarrow> getProp f key)"

text \<open>The identifiers of the layers that a map holds.\<close>

definition lidset :: "map_state \<Rightarrow> string set" where
  "lidset m = lid ` set (layers m)"

text \<open>The keys of the five styling properties that are not derived.\<close>

definition plainStyleKeys :: "string list" where
  "plainStyleKeys = [''fillColor'', ''fillOpacity'', ''strokeColor'', ''strokeWidth'', ''labelText'']"


text \<open>
  How an exported feature relates to the stored one: the same identifier and geometry, the
  same value under every key but \<^verbatim>\<open>fillRgb\<close>, and the same \<^verbatim>\<open>fillRgb\<close> unless the stored
  feature had a truthy \<^verbatim>\<open>fillColor\<close> and no truthy \<^verbatim>\<open>fillRgb\<close>.
\<close>

definition exportedFrom :: "feature \<Rightarrow> feature \<Rightarrow> bool" where
  "exportedFrom g f =
     (fid f = fid g \<and> geometry f = geometry g
      \<and> (\<forall>key. key \<noteq> ''fillRgb'' \<longrightarrow> getProp f key = getProp g key)
      \<and> (truthyOpt (getProp g ''fillRgb'') \<or> \<not> truthyOpt (getProp g ''fillColor'')
           \<longrightarrow> getProp f ''fillRgb'' = getProp g ''fillRgb''))"






text \<open>
  All positions of a geometry, holes and children included, in the order of its coordinate
  arrays; the positions of a feature and of a collection.
\<close>

fun geometryPositions :: "geometry \<Rightarrow> position list" where
  "geometryPositions (Point p) = [p]"
| "geometryPositions (MultiPoint ps) = ps"
| "geometryPositions (LineString ps) = ps"
| "geometryPositions (MultiLineString ls) = concat ls"
| "geometryPositions (Polygon ls) = concat ls"
| "geometryPositions (MultiPolygon ps) = concat (concat ps)"
| "geometryPositions (GeometryCollection gs) = concat (map geometryPositions gs)"

definition featurePositions :: "feature \<Rightarrow> position list" where
  "featurePositions f = (case geometry f of None \<Rightarrow> [] | Some g \<Rightarrow> geometryPositions g)"

definition collectionPositions :: "feature list \<Rightarrow> position list" where
  "collectionPositions fs = concat (map featurePositions fs)"

text \<open>
  The bounds of a collection as the specification words them: the smallest box that holds
  every position, from the least longitude and latitude to the greatest.
\<close>

definition spec_bounds :: "position list \<Rightarrow> bounds" where
  "spec_bounds ps =
     ((Min (fst ` set ps), Min (snd ` set ps)), (Max (fst ` set ps), Max (snd ` set ps)))"

text \<open>A map without layers and sources, and a closed square polygon with a hole.\<close>

definition emptyMap :: map_state where
  "emptyMap = \<lparr>layers = [], sources = Map.empty, fits = []\<rparr>"

definition squarePolygon :: geometry where
  "squarePolygon =
     Polygon [[(0, 0), (0, 2), (2, 2), (2, 0), (0, 0)], [(1, 1), (1, 3 / 2), (3 / 2, 1), (1, 1)]]"

definition plainSquare :: feature where
  "plainSquare = \<lparr>fid = ''p1'', geometry = Some squarePolygon, properties = Some []\<rparr>"

text \<open>A component that holds the square, selected or not.\<close>

definition squareSelected :: component where
  "squareSelected =
     \<lparr>mapRef = Some emptyMap,
      drawRef = Some \<lparr>stored = [plainSquare], selectedIds = [''p1'']\<rparr>,
      drawChanges = []\<rparr>"

definition squareUnselected :: component where
  "squareUnselected =
     \<lparr>mapRef = Some emptyMap,
      drawRef = Some \<lparr>stored = [plainSquare], selectedIds = []\<rparr>,
      drawChanges = []\<rparr>"

text \<open>The square with a fill colour and no \<^verbatim>\<open>fillRgb\<close>, as an imported file may bring it.\<close>

definition blueSquare :: feature where
  "blueSquare = plainSquare\<lparr>properties := Some [(''fillColor'', JStr ''#3bb2d0'')]\<rparr>"

definition blueComponent :: component where
  "blueComponent =
     \<lparr>mapRef = Some emptyMap,
      drawRef = Some \<lparr>stored = [blueSquare], selectedIds = []\<rparr>,
      drawChanges = []\<rparr>"



text \<open>
  A collection whose first feature has no geometry, followed by the square.
\<close>

definition noGeometryFirst :: "feature list" where
  "noGeometryFirst = [\<lparr>fid = ''n1'', geometry = None, properties = Some []\<rparr>, blueSquare]"





section \<open>Supporting lemmas\<close>

subsection \<open>Rounding to binary64\<close>

text \<open>Evaluation of the rounding on numerals.\<close>

lemma bitLength_0: "bitLength 0 = 0"
  by (simp add: bitLength.simps)

lemma bitLength_1: "bitLength 1 = 1"
  by (simp add: bitLength.simps)

lemma bitLength_numeral: "bitLength (numeral n) = bitLength (numeral n div 2) + 1"
  by (subst bitLength.simps) simp

lemma floor_rat_numeral: "\<lfloor>numeral a / numeral b :: rat\<rfloor> = numeral a div numeral b"
  using floor_divide_of_int_eq [of "numeral a" "numeral b", where ?'a = rat] by simp

lemma floor_rat_neg_numeral: "\<lfloor>- (numeral a / numeral b) :: rat\<rfloor> = - numeral a div numeral b"
  using floor_divide_of_int_eq [of "- numeral a" "numeral b", where ?'a = rat] by simp

lemma floor_rat_one_numeral: "\<lfloor>1 / numeral b :: rat\<rfloor> = 1 div numeral b"
  using floor_divide_of_int_eq [of 1 "numeral b", where ?'a = rat] by simp

lemma floor_rat_neg_one_numeral: "\<lfloor>- (1 / numeral b) :: rat\<rfloor> = - 1 div numeral b"
  using floor_divide_of_int_eq [of "- 1" "numeral b", where ?'a = rat] by simp

lemmas roundToDouble_eval =
  roundToDouble_def roundToUnit_def exponentOf_def exponentFrom_def magnitudeBits_def
  roundHalfEven_def Let_def bitLength_0 bitLength_1 bitLength_numeral
  floor_rat_numeral floor_rat_neg_numeral floor_rat_one_numeral floor_rat_neg_one_numeral









subsection \<open>Decimal rendering is injective\<close>

























subsection \<open>The hex-to-RGB lines on well-formed colours\<close>

lemma hexDigit_plain:
  assumes "hexDigit c \<noteq> None"
  shows "\<not> isWhiteSpace c \<and> c \<noteq> CHR ''-'' \<and> c \<noteq> CHR ''+'' \<and> c \<noteq> CHR ''x'' \<and> c \<noteq> CHR ''X''"
proof -
  from assms have "c \<in> fst ` set hexDigits"
    by (simp add: hexDigit_def map_of_eq_None_iff)
  then show ?thesis
    by (auto simp: hexDigits_def isWhiteSpace_def)
qed

lemma parseInt16_two_digits:
  assumes "hexDigit a \<noteq> None" and "hexDigit b \<noteq> None"
  shows "parseInt16 [a, b] = Some (int (hexValue 0 [a, b]))"
  using assms hexDigit_plain [OF assms(1)] hexDigit_plain [OF assms(2)]
  by (simp add: parseInt16_def Let_def)

text \<open>
  On a well-formed colour \<^verbatim>\<open>#rrggbb\<close> none of whose channels is \<open>00\<close>, the lines of the
  component compute the decomposition as the specification words it.
\<close>

lemma hexToRgb_wellformed:
  assumes "list_all (\<lambda>c. hexDigit c \<noteq> None) [r1, r2, g1, g2, b1, b2]"
    and "hexValue 0 [r1, r2] \<noteq> 0" and "hexValue 0 [g1, g2] \<noteq> 0" and "hexValue 0 [b1, b2] \<noteq> 0"
  shows "hexToRgb [CHR ''#'', r1, r2, g1, g2, b1, b2] = spec_hexToRgb [CHR ''#'', r1, r2, g1, g2, b1, b2]"
proof -
  from assms(1) have d: "hexDigit r1 \<noteq> None" "hexDigit r2 \<noteq> None" "hexDigit g1 \<noteq> None"
    "hexDigit g2 \<noteq> None" "hexDigit b1 \<noteq> None" "hexDigit b2 \<noteq> None"
    by simp_all
  have r: "orElse255 (parseInt16 [r1, r2]) = int (hexValue 0 [r1, r2])"
    using assms(2) by (simp add: parseInt16_two_digits [OF d(1,2)] orElse255_def del: hexValue.simps)
  have g: "orElse255 (parseInt16 [g1, g2]) = int (hexValue 0 [g1, g2])"
    using assms(3) by (simp add: parseInt16_two_digits [OF d(3,4)] orElse255_def del: hexValue.simps)
  have b: "orElse255 (parseInt16 [b1, b2]) = int (hexValue 0 [b1, b2])"
    using assms(4) by (simp add: parseInt16_two_digits [OF d(5,6)] orElse255_def del: hexValue.simps)
  have "hexToRgb [CHR ''#'', r1, r2, g1, g2, b1, b2] =
        showInt (orElse255 (parseInt16 [r1, r2])) @ '','' @
        showInt (orElse255 (parseInt16 [g1, g2])) @ '','' @
        showInt (orElse255 (parseInt16 [b1, b2]))"
    by (simp add: hexToRgb_def Let_def substring_def)
  also have "\<dots> = showNat (hexValue 0 [r1, r2]) @ '','' @ showNat (hexValue 0 [g1, g2]) @ '','' @
        showNat (hexValue 0 [b1, b2])"
    by (simp only: r g b) (simp add: showInt_def del: hexValue.simps)
  also have "\<dots> = spec_hexToRgb [CHR ''#'', r1, r2, g1, g2, b1, b2]"
    using d by (simp add: spec_hexToRgb_def del: hexValue.simps)
  finally show ?thesis .
qed

subsection \<open>Grid sampling counts cells\<close>













subsection \<open>Deduplication keeps the first entry of every key\<close>















subsection \<open>What getDrawData does to one feature\<close>





subsection \<open>Layers and sources through a synchronization pass\<close>

lemma getLayer_None_iff: "getLayer m j = None \<longleftrightarrow> j \<notin> lidset m"
  by (auto simp: getLayer_def lidset_def find_None_iff)

lemma getLayer_Some_iff: "(\<exists>l. getLayer m j = Some l) \<longleftrightarrow> j \<in> lidset m"
  using getLayer_None_iff [of m j] by auto

lemma lidset_removeLayer: "lidset (removeLayer m i) = lidset m - {i}"
  by (auto simp: removeLayer_def lidset_def)

lemma lidset_removeSource: "lidset (removeSource m i) = lidset m"
  by (simp add: removeSource_def lidset_def)

lemma lidset_addSource: "lidset (addSource m i d) = lidset m"
  by (simp add: addSource_def lidset_def)

lemma lidset_addLayer: "lidset (addLayer m l) = insert (lid l) (lidset m)"
  by (auto simp: addLayer_def lidset_def)

lemma lidset_moveLayer: "lidset (moveLayer m i b) = lidset m"
proof (cases "getLayer m i")
  case None
  then show ?thesis by (simp add: moveLayer_def)
next
  case (Some l)
  then have l: "l \<in> set (layers m)" "lid l = i"
    by (auto simp: getLayer_def find_Some_iff in_set_conv_nth)
  let ?others = "filter (\<lambda>x. lid x \<noteq> i) (layers m)"
  have others: "lid ` set ?others \<union> {i} = lidset m"
    using l by (auto simp: lidset_def)
  have split: "set (takeWhile P ?others) \<union> set (dropWhile P ?others) = set ?others" for P
    by (metis set_append takeWhile_dropWhile_id)
  show ?thesis
  proof (cases b)
    case None
    with Some others l show ?thesis
      by (auto simp: moveLayer_def Let_def lidset_def)
  next
    case (Some bid)
    have "lid ` (set (takeWhile (\<lambda>x. lid x \<noteq> bid) ?others) \<union> {l} \<union>
                 set (dropWhile (\<lambda>x. lid x \<noteq> bid) ?others)) = lidset m"
      using others l split [of "\<lambda>x. lid x \<noteq> bid"] by (auto simp: lidset_def)
    with Some \<open>getLayer m i = Some l\<close> show ?thesis
      by (simp add: moveLayer_def Let_def lidset_def Un_commute Un_left_commute insert_commute)
  qed
qed

lemma sources_removeLayer: "sources (removeLayer m i) = sources m"
  by (simp add: removeLayer_def)

lemma sources_addLayer: "sources (addLayer m l) = sources m"
  by (simp add: addLayer_def)

lemma sources_moveLayer: "sources (moveLayer m i b) = sources m"
  by (simp add: moveLayer_def Let_def split: option.splits)

lemma fits_moveLayer: "fits (moveLayer m i b) = fits m"
  by (simp add: moveLayer_def Let_def split: option.splits)

lemma rebuildOverlay_source:
  "getSource (rebuildOverlay sid l k fs m) j =
     (if j = sid then (if fs = [] then None else Some (Features fs)) else getSource m j)"
  by (auto simp: rebuildOverlay_def Let_def getSource_def removeSource_def addSource_def
      addLayer_def removeLayer_def)

lemma rebuildOverlay_layer:
  "lidset (rebuildOverlay sid l k fs m) = (if fs = [] then lidset m - {l} else insert l (lidset m))"
  by (auto simp: rebuildOverlay_def Let_def getLayer_None_iff getLayer_Some_iff lidset_removeLayer lidset_removeSource
      lidset_addSource lidset_addLayer)

lemma rebuildOverlay_fits: "fits (rebuildOverlay sid l k fs m) = fits m"
  by (simp add: rebuildOverlay_def Let_def removeSource_def addSource_def addLayer_def
      removeLayer_def)

lemma dropLayers_lidset: "lidset (removeOldLayers is m) = lidset m - coordLayerId ` set is"
  unfolding removeOldLayers_def
  by (induction "is" arbitrary: m) (auto simp: getLayer_None_iff getLayer_Some_iff lidset_removeLayer)

lemma dropLayers_sources: "sources (removeOldLayers is m) = sources m"
  unfolding removeOldLayers_def
  by (induction "is" arbitrary: m) (auto simp: sources_removeLayer)

lemma dropLayers_fits: "fits (removeOldLayers is m) = fits m"
  unfolding removeOldLayers_def
  by (induction "is" arbitrary: m) (auto simp: removeLayer_def)

lemma dropSources_lidset: "lidset (removeOldSources is m) = lidset m"
  unfolding removeOldSources_def
  by (induction "is" arbitrary: m) (auto simp: lidset_removeSource)

lemma dropSources_sources:
  "j \<notin> range coordSourceId \<Longrightarrow> sources (removeOldSources is m) j = sources m j"
  unfolding removeOldSources_def
  by (induction "is" arbitrary: m) (auto simp: removeSource_def getSource_def)

lemma dropSources_fits: "fits (removeOldSources is m) = fits m"
  unfolding removeOldSources_def
  by (induction "is" arbitrary: m) (auto simp: removeSource_def)

lemma addTiers_lidset:
  "j \<notin> range coordLayerId \<Longrightarrow> j \<in> lidset (fold (addTier es) ts m) \<longleftrightarrow> j \<in> lidset m"
  by (induction ts arbitrary: m)
     (auto simp: addTier_def Let_def lidset_addLayer lidset_addSource)

lemma addTiers_sources:
  "j \<notin> range coordSourceId \<Longrightarrow> sources (fold (addTier es) ts m) j = sources m j"
  by (induction ts arbitrary: m)
     (auto simp: addTier_def Let_def sources_addLayer addSource_def)

lemma addTiers_fits: "fits (fold (addTier es) ts m) = fits m"
  by (induction ts arbitrary: m) (auto simp: addTier_def Let_def addLayer_def addSource_def)

lemma moveBelow_lidset: "lidset (moveBelowLabels l m) = lidset m"
  by (simp add: moveBelowLabels_def lidset_moveLayer)

lemma moveBelow_sources: "sources (moveBelowLabels l m) = sources m"
  by (simp add: moveBelowLabels_def sources_moveLayer)

lemma moveBelow_fits: "fits (moveBelowLabels l m) = fits m"
  by (simp add: moveBelowLabels_def fits_moveLayer)

lemma upsert_lidset:
  "j \<notin> range coordLayerId \<Longrightarrow> j \<in> lidset (upsertCoordinateLabels m fs) \<longleftrightarrow> j \<in> lidset m"
  unfolding upsertCoordinateLabels_def Let_def
  by (auto simp: moveBelow_lidset addTiers_lidset dropSources_lidset dropLayers_lidset)

lemma upsert_sources:
  "j \<notin> range coordSourceId \<Longrightarrow> getSource (upsertCoordinateLabels m fs) j = getSource m j"
  unfolding upsertCoordinateLabels_def Let_def getSource_def
  by (auto simp: moveBelow_sources addTiers_sources dropSources_sources dropLayers_sources)

lemma upsert_fits: "fits (upsertCoordinateLabels m fs) = fits m"
  unfolding upsertCoordinateLabels_def Let_def
  by (simp add: moveBelow_fits addTiers_fits dropSources_fits dropLayers_fits)

lemma update_fits: "fits (updateCustomColoredLayer m fs) = fits m"
  unfolding updateCustomColoredLayer_def Let_def
  by (simp add: fits_moveLayer rebuildOverlay_fits upsert_fits)

lemma fill_source_plain: "''custom-colored-polygons'' \<notin> range coordSourceId"
  by (auto simp: coordSourceId_def)

lemma fill_layer_plain: "''custom-colored-polygons-layer'' \<notin> range coordLayerId"
  by (auto simp: coordLayerId_def)

subsection \<open>The fill mutators on the draw store\<close>

lemma find_filter_weaker:
  "(\<And>x. P x \<Longrightarrow> Q x) \<Longrightarrow> find P (filter Q xs) = find P xs"
  by (induction xs) auto

lemma find_append_split:
  "find P (xs @ ys) = (case find P xs of None \<Rightarrow> find P ys | Some x \<Rightarrow> Some x)"
  by (induction xs) auto

lemma find_fid: "find (\<lambda>f. fid f = i) xs = Some f \<Longrightarrow> fid f = i"
  by (induction xs) (auto split: if_splits)

lemma filter_setFeatureProperty:
  "filter (\<lambda>f. fid f \<noteq> i) (stored (draw_setFeatureProperty d i key v)) =
   filter (\<lambda>f. fid f \<noteq> i) (stored d)"
proof -
  have "filter (\<lambda>f. fid f \<noteq> i)
          (map (\<lambda>g. if fid g = i
                     then g\<lparr>properties :=
                            Some (case v of
                                    Some x \<Rightarrow> AList.update key x (propsOrEmpty g)
                                  | None \<Rightarrow> AList.delete key (propsOrEmpty g))\<rparr>
                     else g) xs) =
        filter (\<lambda>f. fid f \<noteq> i) xs" for xs
    by (induction xs) auto
  then show ?thesis by (simp add: draw_setFeatureProperty_def)
qed

lemma normalised_styledFill: "normalised (styledFill c v f) = styledFill c v f"
  by (simp add: normalised_def styledFill_def Let_def propsOrEmpty_def)

lemma fid_styledFill: "fid (styledFill c v f) = fid f"
  by (simp add: styledFill_def Let_def)

lemma stored_fillSelected:
  "stored (fillSelected c v i d) =
     (case draw_get d i of
        None \<Rightarrow> stored d
      | Some f0 \<Rightarrow> filter (\<lambda>f. fid f \<noteq> i) (stored d) @ [styledFill c v f0])"
proof (cases "draw_get d i")
  case None
  then show ?thesis by (simp add: fillSelected_def)
next
  case (Some f0)
  then have f0: "fid f0 = i" unfolding draw_get_def by (rule find_fid)
  let ?f = "styledFill c v f0"
  let ?d1 = "draw_setFeatureProperty d i ''fillColor'' (getProp ?f ''fillColor'')"
  let ?d2 = "draw_setFeatureProperty ?d1 i ''fillOpacity'' (getProp ?f ''fillOpacity'')"
  let ?d3 = "draw_setFeatureProperty ?d2 i ''fillRgb'' (getProp ?f ''fillRgb'')"
  have same: "?f\<lparr>fid := i\<rparr> = ?f"
    using f0 by (simp add: fid_styledFill)
  have gone: "draw_get (draw_delete ?d3 i) i = None"
    by (simp add: draw_get_def draw_delete_def find_None_iff)
  have rest: "stored (draw_delete ?d3 i) = filter (\<lambda>f. fid f \<noteq> i) (stored d)"
    by (simp add: draw_delete_def filter_setFeatureProperty)
  have "fillSelected c v i d = draw_add (draw_delete ?d3 i) ?f"
    using Some same by (simp add: fillSelected_def Let_def)
  with gone rest Some show ?thesis
    using f0 by (simp add: draw_add_def fid_styledFill normalised_styledFill)
qed

lemma draw_get_fillSelected:
  "draw_get (fillSelected c v i d) j =
     (if j = i then map_option (styledFill c v) (draw_get d i) else draw_get d j)"
proof (cases "draw_get d i")
  case None
  then show ?thesis
    by (simp add: draw_get_def stored_fillSelected [unfolded draw_get_def])
next
  case (Some f0)
  then have f0: "fid f0 = i" unfolding draw_get_def by (rule find_fid)
  have none: "find (\<lambda>f. fid f = i) (filter (\<lambda>f. fid f \<noteq> i) (stored d)) = None"
    by (simp add: find_None_iff)
  have other: "j \<noteq> i \<Longrightarrow>
      find (\<lambda>f. fid f = j) (filter (\<lambda>f. fid f \<noteq> i) (stored d)) = find (\<lambda>f. fid f = j) (stored d)"
    by (rule find_filter_weaker) simp
  from Some have st: "stored (fillSelected c v i d) =
      filter (\<lambda>f. fid f \<noteq> i) (stored d) @ [styledFill c v f0]"
    by (simp add: stored_fillSelected)
  show ?thesis
  proof (cases "j = i")
    case True
    with Some f0 none show ?thesis
      by (simp add: draw_get_def [of "fillSelected c v i d"] st find_append_split fid_styledFill)
  next
    case False
    with other f0 show ?thesis
      by (simp add: draw_get_def st find_append_split fid_styledFill split: option.splits)
  qed
qed

lemma styledFill_idem: "styledFill c v (styledFill c v f) = styledFill c v f"
proof -
  let ?p = "propsOrEmpty (styledFill c v f)"
  have a: "map_of ?p ''fillColor'' = Some (JStr c)"
    by (cases v) (simp_all add: styledFill_def Let_def propsOrEmpty_def update_conv')
  have b: "v = Some x \<Longrightarrow> map_of ?p ''fillOpacity'' = Some (JNum x)" for x
    by (simp add: styledFill_def Let_def propsOrEmpty_def update_conv')
  have c: "map_of ?p ''fillRgb'' = Some (JStr (hexToRgb c))"
    by (cases v) (simp_all add: styledFill_def Let_def propsOrEmpty_def update_conv')
  have p1: "AList.update ''fillColor'' (JStr c) ?p = ?p"
    using a by (rule update_triv)
  have p2: "(case v of Some x \<Rightarrow> AList.update ''fillOpacity'' (JNum x) ?p | None \<Rightarrow> ?p) = ?p"
    using b by (cases v) (simp_all add: update_triv)
  have p3: "AList.update ''fillRgb'' (JStr (hexToRgb c)) ?p = ?p"
    using c by (rule update_triv)
  have "styledFill c v (styledFill c v f) = (styledFill c v f)\<lparr>properties := Some ?p\<rparr>"
    unfolding styledFill_def [of c v "styledFill c v f"] Let_def
    by (simp only: p1 p2 p3)
  also have "\<dots> = styledFill c v f"
    by (simp add: styledFill_def Let_def propsOrEmpty_def)
  finally show ?thesis .
qed

lemma draw_get_fold_fillSelected:
  "draw_get (fold (fillSelected c v) ids d) j =
     (if j \<in> set ids then map_option (styledFill c v) (draw_get d j) else draw_get d j)"
proof (induction ids arbitrary: d)
  case Nil
  show ?case by simp
next
  case (Cons i ids)
  have idem: "map_option (styledFill c v) (map_option (styledFill c v) x) = map_option (styledFill c v) x"
    for x by (cases x) (simp_all add: styledFill_idem)
  show ?case
    by (simp add: Cons.IH draw_get_fillSelected idem)
qed

lemma draw_get_changeMode: "draw_get (draw_changeMode_simple_select d ids) j = draw_get d j"
  by (simp add: draw_get_def draw_changeMode_simple_select_def)

lemma storedFeature_changeSelectedFill:
  "storedFeature (changeSelectedFill c v st) j =
     (case drawRef st of
        None \<Rightarrow> None
      | Some d \<Rightarrow>
          if j \<in> set (draw_getSelectedIds d) then map_option (styledFill c v) (draw_get d j)
          else draw_get d j)"
  by (auto simp: storedFeature_def changeSelectedFill_def Let_def emitAndSync_def
      draw_get_changeMode draw_get_fold_fillSelected split: option.splits)

lemma selection_after_changeSelectedFill:
  "drawRef st = Some d \<Longrightarrow> drawRef (changeSelectedFill c v st) = Some d' \<Longrightarrow>
   set (draw_getSelectedIds d') \<subseteq> set (draw_getSelectedIds d)"
  by (auto simp: changeSelectedFill_def Let_def emitAndSync_def draw_getSelectedIds_def
      draw_changeMode_simple_select_def split: if_splits)

lemma drawRef_applyFillToAll:
  "drawRef st = Some d \<Longrightarrow>
   drawRef (applyFillToAll c v st) =
     Some (fold (fillOne c v) (filter isPolygonal (draw_getAll d)) d)"
  by (simp add: applyFillToAll_def emitAndSync_def Let_def)

subsection \<open>The store after an import\<close>

lemma exportFeature_exportedFrom: "exportFeature g = Some f \<Longrightarrow> exportedFrom g f"
  by (auto simp: exportFeature_def exportedFrom_def Let_def getProp_def propsOrEmpty_def
      update_conv' split: if_splits option.splits jsval.splits)

lemma exportedFrom_normalised: "exportedFrom g (normalised g)"
  by (simp add: exportedFrom_def normalised_def getProp_def propsOrEmpty_def)

lemma exportedFrom_then_normalised: "exportedFrom g f \<Longrightarrow> exportedFrom g (normalised f)"
  by (simp add: exportedFrom_def normalised_def getProp_def propsOrEmpty_def)

lemma those_all2:
  "those (map h xs) = Some ys \<Longrightarrow> list_all2 (\<lambda>x y. h x = Some y) xs ys"
  by (induction xs arbitrary: ys) (auto split: option.splits)

lemma getDrawData_exportedFrom:
  assumes "drawRef st = Some draw"
  shows "list_all2 exportedFrom (draw_getAll draw) (map normalised (getDrawData st))"
proof (cases "those (map exportFeature (draw_getAll draw))")
  case None
  with assms have "getDrawData st = draw_getAll draw" by (simp add: getDrawData_def)
  then show ?thesis
    by (simp add: list_all2_map2 list_all2_same exportedFrom_normalised)
next
  case (Some fs)
  then have "list_all2 (\<lambda>x y. exportFeature x = Some y) (draw_getAll draw) fs"
    by (rule those_all2)
  then have "list_all2 (\<lambda>x y. exportedFrom x (normalised y)) (draw_getAll draw) fs"
    by (rule list_all2_mono) (simp add: exportFeature_exportedFrom exportedFrom_then_normalised)
  moreover from Some assms have "getDrawData st = fs" by (simp add: getDrawData_def)
  ultimately show ?thesis by (simp add: list_all2_map2)
qed

lemma find_exportedFrom:
  "list_all2 exportedFrom xs ys \<Longrightarrow>
   rel_option exportedFrom (find (\<lambda>f. fid f = i) xs) (find (\<lambda>f. fid f = i) ys)"
  by (induction xs ys rule: list_all2_induct) (auto simp: exportedFrom_def)

lemma fid_normalised: "fid (normalised f) = fid f"
  by (simp add: normalised_def)

lemma normalised_idem: "normalised (normalised f) = normalised f"
  by (simp add: normalised_def propsOrEmpty_def)

lemma stored_fold_add:
  "distinct (map fid fs) \<Longrightarrow> fid ` set fs \<inter> fid ` set (stored d) = {} \<Longrightarrow>
   stored (fold (\<lambda>f d'. draw_add d' f) fs d) = stored d @ map normalised fs"
proof (induction fs arbitrary: d)
  case Nil
  show ?case by simp
next
  case (Cons f fs)
  from Cons.prems(2) have "fid f \<notin> fid ` set (stored d)" by auto
  then have fresh: "draw_get d (fid f) = None"
    unfolding draw_get_def find_None_iff by (metis imageI)
  then have st: "stored (draw_add d f) = stored d @ [normalised f]"
    by (simp add: draw_add_def)
  from Cons.prems have "fid ` set fs \<inter> fid ` set (stored (draw_add d f)) = {}"
    by (auto simp: st fid_normalised)
  with Cons.prems(1) have "stored (fold (\<lambda>f d'. draw_add d' f) fs (draw_add d f)) =
      stored (draw_add d f) @ map normalised fs"
    by (intro Cons.IH) simp_all
  then show ?case by (simp add: st)
qed

lemma stored_draw_set:
  "distinct (map fid fs) \<Longrightarrow> stored (draw_set d fs) = map normalised fs"
  unfolding draw_set_def by (subst stored_fold_add) simp_all

lemma distinct_getDrawData:
  assumes "drawRef st = Some draw" and "distinct (map fid (draw_getAll draw))"
  shows "distinct (map fid (map normalised (getDrawData st)))"
proof -
  have "list_all2 (\<lambda>g f. fid f = fid g) (draw_getAll draw) (map normalised (getDrawData st))"
    using getDrawData_exportedFrom [OF assms(1)]
    by (rule list_all2_mono) (simp add: exportedFrom_def)
  then have "map fid (map normalised (getDrawData st)) = map fid (draw_getAll draw)"
    by (induction rule: list_all2_induct) simp_all
  with assms(2) show ?thesis by simp
qed

lemma drawRef_handleFileUpload:
  "mapRef st' = Some m' \<Longrightarrow> drawRef st' = Some draw' \<Longrightarrow>
   drawRef (handleFileUpload (CollectionText fs) st') = Some (draw_set draw' (map normalised fs))"
  by (simp add: handleFileUpload_def loadGeoJson_def Let_def)

subsection \<open>The box that a load fits\<close>

lemma Min_insert_min:
  fixes a :: "'a::linorder"
  shows "finite S \<Longrightarrow> Min (insert (min a x) S) = Min (insert a (insert x S))"
  by (cases "S = {}") (simp_all add: min.assoc)

lemma Max_insert_max:
  fixes a :: "'a::linorder"
  shows "finite S \<Longrightarrow> Max (insert (max a x) S) = Max (insert a (insert x S))"
  by (cases "S = {}") (simp_all add: max.assoc)

lemma fold_extend:
  "fold (\<lambda>p b'. bounds_extend b' p) ps b =
     ((Min (insert (fst (fst b)) (fst ` set ps)), Min (insert (snd (fst b)) (snd ` set ps))),
      (Max (insert (fst (snd b)) (fst ` set ps)), Max (insert (snd (snd b)) (snd ` set ps))))"
proof (induction ps arbitrary: b)
  case Nil
  show ?case by simp
next
  case (Cons p ps)
  have "fold (\<lambda>p b'. bounds_extend b' p) (p # ps) b =
        fold (\<lambda>p b'. bounds_extend b' p) ps (bounds_extend b p)"
    by simp
  also have "\<dots> =
     ((Min (insert (fst (fst (bounds_extend b p))) (fst ` set ps)),
       Min (insert (snd (fst (bounds_extend b p))) (snd ` set ps))),
      (Max (insert (fst (snd (bounds_extend b p))) (fst ` set ps)),
       Max (insert (snd (snd (bounds_extend b p))) (snd ` set ps))))"
    by (rule Cons.IH)
  also have "\<dots> =
     ((Min (insert (fst (fst b)) (fst ` set (p # ps))), Min (insert (snd (fst b)) (snd ` set (p # ps)))),
      (Max (insert (fst (snd b)) (fst ` set (p # ps))), Max (insert (snd (snd b)) (snd ` set (p # ps)))))"
    by (simp add: bounds_extend_def Min_insert_min Max_insert_max)
  finally show ?case .
qed

lemma fold_extend_append:
  "fold (\<lambda>p b'. bounds_extend b' p) (ps @ qs) b =
     fold (\<lambda>p b'. bounds_extend b' p) qs (fold (\<lambda>p b'. bounds_extend b' p) ps b)"
  by simp

lemma extendBoundsWithGeometry_positions:
  "extendBoundsWithGeometry g b = fold (\<lambda>p b'. bounds_extend b' p) (geometryPositions g) b"
proof (induction g arbitrary: b)
  case (GeometryCollection gs)
  then show ?case
  proof (induction gs arbitrary: b)
    case Nil
    show ?case by simp
  next
    case (Cons g gs)
    then show ?case by simp
  qed
qed simp_all

lemma fold_extendBoundsWithFeature:
  "fold extendBoundsWithFeature fs b = fold (\<lambda>p b'. bounds_extend b' p) (collectionPositions fs) b"
proof (induction fs arbitrary: b)
  case Nil
  show ?case by (simp add: collectionPositions_def)
next
  case (Cons f fs)
  have "extendBoundsWithFeature f b = fold (\<lambda>p b'. bounds_extend b' p) (featurePositions f) b"
    by (simp add: extendBoundsWithFeature_def featurePositions_def
        extendBoundsWithGeometry_positions split: option.split)
  with Cons.IH show ?case
    by (simp add: collectionPositions_def)
qed

lemma firstOf_append: "firstOf (ps @ qs) = (case firstOf ps of None \<Rightarrow> firstOf qs | Some p \<Rightarrow> Some p)"
  by (cases ps) (simp_all add: firstOf_def)

lemma getCoordinateFromGeometry_Cons:
  "getCoordinateFromGeometry (GeometryCollection (g # gs)) =
     (case getCoordinateFromGeometry g of
        None \<Rightarrow> getCoordinateFromGeometry (GeometryCollection gs)
      | Some c \<Rightarrow> Some c)"
  by (cases "getCoordinateFromGeometry g") simp_all

lemma getCoordinateFromGeometry_positions:
  "getCoordinateFromGeometry g = firstOf (geometryPositions g)"
proof (induction g)
  case (Point p)
  show ?case by (simp add: firstOf_def)
next
  case (GeometryCollection gs)
  then show ?case
  proof (induction gs)
    case Nil
    show ?case by (simp add: firstOf_def)
  next
    case (Cons g gs)
    then have g: "getCoordinateFromGeometry g = firstOf (geometryPositions g)"
      and rest: "getCoordinateFromGeometry (GeometryCollection gs) =
                 firstOf (geometryPositions (GeometryCollection gs))"
      by simp_all
    have "firstOf (geometryPositions (GeometryCollection (g # gs))) =
          (case firstOf (geometryPositions g) of
             None \<Rightarrow> firstOf (geometryPositions (GeometryCollection gs))
           | Some c \<Rightarrow> Some c)"
      by (simp add: firstOf_append split: option.split)
    with g rest show ?case
      by (simp only: getCoordinateFromGeometry_Cons)
  qed
qed simp_all

lemma getFirstCoordinate_positions: "getFirstCoordinate f = firstOf (featurePositions f)"
  by (simp add: getFirstCoordinate_def featurePositions_def getCoordinateFromGeometry_positions
      firstOf_def split: option.split)

lemma featurePositions_normalised: "featurePositions (normalised f) = featurePositions f"
  by (simp add: featurePositions_def normalised_def)

lemma collectionPositions_normalised:
  "collectionPositions (map normalised fs) = collectionPositions fs"
  by (simp add: collectionPositions_def featurePositions_normalised comp_def)

lemma fits_fitToCollection:
  "fits (fitToCollection m fs) =
     (if fs = [] \<or> featurePositions (hd fs) = [] then fits m
      else fits m @ [spec_bounds (collectionPositions fs)])"
proof (cases fs)
  case Nil
  then show ?thesis by (simp add: fitToCollection_def)
next
  case (Cons f0 rest)
  show ?thesis
  proof (cases "featurePositions f0")
    case Nil
    with Cons show ?thesis
      by (simp add: fitToCollection_def getFirstCoordinate_positions firstOf_def)
  next
    case (Cons c cs)
    have first: "getFirstCoordinate f0 = Some c"
      using Cons by (simp add: getFirstCoordinate_positions firstOf_def)
    have mem: "c \<in> set (collectionPositions fs)"
      using Cons \<open>fs = f0 # rest\<close> by (simp add: collectionPositions_def)
    then have "fst c \<in> fst ` set (collectionPositions fs)" and "snd c \<in> snd ` set (collectionPositions fs)"
      by simp_all
    then have box: "fold (\<lambda>p b'. bounds_extend b' p) (collectionPositions fs) (c, c) =
               spec_bounds (collectionPositions fs)"
      by (simp add: fold_extend spec_bounds_def insert_absorb)
    have "fitToCollection m fs = fitBounds m (fold extendBoundsWithFeature fs (c, c))"
      using first \<open>fs = f0 # rest\<close> by (simp add: fitToCollection_def)
    also have "\<dots> = fitBounds m (spec_bounds (collectionPositions fs))"
      by (simp only: fold_extendBoundsWithFeature box)
    finally show ?thesis
      using Cons \<open>fs = f0 # rest\<close> by (simp add: fitBounds_def)
  qed
qed

lemma fits_loadGeoJson:
  assumes "mapRef st = Some m" and "drawRef st = Some draw"
  shows "map_option fits (mapRef (loadGeoJson collection options st)) =
           Some (if options = Some (Some False) \<or> collection = []
                    \<or> featurePositions (hd collection) = []
                 then fits m
                 else fits m @ [spec_bounds (collectionPositions collection)])"
proof -
  have "map_option fits (mapRef (loadGeoJson collection options st)) =
           Some (if options = Some (Some False) then fits m
                 else fits (fitToCollection m (map normalised collection)))"
    using assms by (simp add: loadGeoJson_def Let_def wantsFit_def update_fits upsert_fits)
  moreover have "featurePositions (hd (map normalised collection)) = featurePositions (hd collection)"
    if "collection \<noteq> []"
    using that by (cases collection) (simp_all add: featurePositions_normalised)
  ultimately show ?thesis
    by (auto simp: fits_fitToCollection collectionPositions_normalised)
qed

section \<open>The claims\<close>

subsection \<open>C1: the derived fillRgb\<close>

text \<open>
  C1 says that every fill mutator leaves \<^verbatim>\<open>fillRgb\<close> equal to the hex-to-decimal decomposition
  of \<^verbatim>\<open>fillColor\<close>.  The code computes each channel as \<^verbatim>\<open>parseInt(..., 16) || 255\<close>, and \<^verbatim>\<open>||\<close>
  takes a channel that parses to \<open>0\<close> for a failed parse.  For pure red, \<^verbatim>\<open>#ff0000\<close>,
  \<^verbatim>\<open>changeSelectedFill\<close>, \<^verbatim>\<open>applyFillToAll\<close> and the \<^verbatim>\<open>draw.create\<close> handler all store
  \<^verbatim>\<open>255,255,255\<close>, where the decomposition is \<^verbatim>\<open>255,0,0\<close>.  (Lemma \<open>hexToRgb_wellformed\<close>
  shows that the two agree when no channel is \<open>00\<close>.)
\<close>

theorem C1_zero_channel_comes_out_as_255:
  "featureProp (changeSelectedFill ''#ff0000'' None squareSelected) ''p1'' ''fillColor'' =
     Some (JStr ''#ff0000'')
   \<and> featureProp (changeSelectedFill ''#ff0000'' None squareSelected) ''p1'' ''fillRgb'' =
       Some (JStr ''255,255,255'')
   \<and> featureProp (applyFillToAll ''#ff0000'' None squareUnselected) ''p1'' ''fillRgb'' =
       Some (JStr ''255,255,255'')
   \<and> map_option (\<lambda>f. getProp f ''fillRgb'')
         (createDefaults (plainSquare\<lparr>properties := Some [(''fillColor'', JStr ''#ff0000'')]\<rparr>)) =
       Some (Some (JStr ''255,255,255''))
   \<and> spec_hexToRgb ''#ff0000'' = ''255,0,0''"
proof -
  let ?d = "\<lparr>stored = [plainSquare], selectedIds = [''p1'']\<rparr>"
  let ?u = "\<lparr>stored = [plainSquare], selectedIds = []\<rparr>"
  have sel: "featureProp (changeSelectedFill ''#ff0000'' None squareSelected) ''p1'' key =
      (case (if ''p1'' \<in> set (draw_getSelectedIds ?d)
             then map_option (styledFill ''#ff0000'' None) (draw_get ?d ''p1'')
             else draw_get ?d ''p1'') of
         None \<Rightarrow> None
       | Some f \<Rightarrow> getProp f key)" for key
    by (simp add: featureProp_def storedFeature_changeSelectedFill squareSelected_def)
  have a: "featureProp (changeSelectedFill ''#ff0000'' None squareSelected) ''p1'' ''fillColor'' =
      Some (JStr ''#ff0000'')"
    unfolding sel by code_simp
  have b: "featureProp (changeSelectedFill ''#ff0000'' None squareSelected) ''p1'' ''fillRgb'' =
      Some (JStr ''255,255,255'')"
    unfolding sel by code_simp
  have "drawRef (applyFillToAll ''#ff0000'' None squareUnselected) =
      Some (fold (fillOne ''#ff0000'' None) (filter isPolygonal (draw_getAll ?u)) ?u)"
    by (rule drawRef_applyFillToAll) (simp add: squareUnselected_def)
  then have "featureProp (applyFillToAll ''#ff0000'' None squareUnselected) ''p1'' ''fillRgb'' =
      (case draw_get (fold (fillOne ''#ff0000'' None) (filter isPolygonal (draw_getAll ?u)) ?u) ''p1'' of
         None \<Rightarrow> None
       | Some f \<Rightarrow> getProp f ''fillRgb'')"
    by (simp add: featureProp_def storedFeature_def)
  also have "\<dots> = Some (JStr ''255,255,255'')"
    by code_simp
  finally have c: "featureProp (applyFillToAll ''#ff0000'' None squareUnselected) ''p1'' ''fillRgb'' =
      Some (JStr ''255,255,255'')" .
  have d: "map_option (\<lambda>f. getProp f ''fillRgb'')
         (createDefaults (plainSquare\<lparr>properties := Some [(''fillColor'', JStr ''#ff0000'')]\<rparr>)) =
       Some (Some (JStr ''255,255,255''))"
    by code_simp
  have e: "spec_hexToRgb ''#ff0000'' = ''255,0,0''"
    by code_simp
  from a b c d e show ?thesis by blast
qed

subsection \<open>C2: centroid of the square ring\<close>

text \<open>
  C2: for the square ring \<open>[[0,0],[0,2],[2,2],[2,0],[0,0]]\<close> the centroid computation is to
  return \<open>[1,1]\<close>, the central point of the square.  The code, in both components, returns
  \<open>[0.8,0.8]\<close>: the closing vertex, which repeats the first one, is added to the sums and
  counted a second time, so the sums are \<open>4\<close> and the count is \<open>5\<close>.  The result moves with the
  vertex from which the same square is listed: from \<open>(2,2)\<close> it is \<open>[1.2,1.2]\<close>.
\<close>

theorem C2_closing_vertex_counted_twice:
  "calculatePolygonCentroid [squareRing] = Some (roundToDouble (4 / 5), roundToDouble (4 / 5)) \<and>
   leafletCalculatePolygonCentroid squareRing = Some (roundToDouble (4 / 5), roundToDouble (4 / 5)) \<and>
   calculatePolygonCentroid [squareRing] \<noteq> Some (1, 1) \<and>
   leafletCalculatePolygonCentroid squareRing \<noteq> Some (1, 1) \<and>
   centroidLoop squareRing (0, 0, 0) = (4, 4, 5) \<and>
   calculatePolygonCentroid [squareRingFrom22] = Some (roundToDouble (6 / 5), roundToDouble (6 / 5))"
  by (simp add: calculatePolygonCentroid_def leafletCalculatePolygonCentroid_def squareRing_def
      squareRingFrom22_def roundToDouble_eval)

subsection \<open>C3: tier monotonicity of the grid sampling\<close>



subsection \<open>C4: export followed by import\<close>

text \<open>
  C4, as stated: export followed by import reproduces identical \<^verbatim>\<open>fillRgb\<close> on every feature.
  A stored feature with a \<^verbatim>\<open>fillColor\<close> and no \<^verbatim>\<open>fillRgb\<close> comes back with the \<^verbatim>\<open>fillRgb\<close> that
  \<^verbatim>\<open>getDrawData\<close> synthesized for the file.
\<close>

theorem C4_rgb_appears_on_reimport:
  "exportGeoJson (Some blueComponent) = Some (CollectionText (getDrawData blueComponent))
   \<and> featureProp blueComponent ''p1'' ''fillRgb'' = None
   \<and> featureProp (handleFileUpload (CollectionText (getDrawData blueComponent)) blueComponent)
        ''p1'' ''fillRgb'' = Some (JStr ''59,178,208'')"
proof -
  have a: "exportGeoJson (Some blueComponent) = Some (CollectionText (getDrawData blueComponent))"
    by (simp add: exportGeoJson_def)
  have b: "featureProp blueComponent ''p1'' ''fillRgb'' = None"
    by code_simp
  have "drawRef (handleFileUpload (CollectionText (getDrawData blueComponent)) blueComponent) =
        Some (draw_set \<lparr>stored = [blueSquare], selectedIds = []\<rparr>
                (map normalised (getDrawData blueComponent)))"
    by (rule drawRef_handleFileUpload [of _ emptyMap]) (simp_all add: blueComponent_def)
  then have "featureProp (handleFileUpload (CollectionText (getDrawData blueComponent)) blueComponent)
        ''p1'' ''fillRgb'' =
      (case draw_get (draw_set \<lparr>stored = [blueSquare], selectedIds = []\<rparr>
                        (map normalised (getDrawData blueComponent))) ''p1'' of
         None \<Rightarrow> None
       | Some f \<Rightarrow> getProp f ''fillRgb'')"
    by (simp add: featureProp_def storedFeature_def)
  also have "\<dots> = Some (JStr ''59,178,208'')"
    by code_simp
  finally show ?thesis using a b by simp
qed

text \<open>
  C4, amended: with unique identifiers in the store, importing the exported file into an
  initialised component leaves the store with exactly the exported features; compared with the
  collection held before the export, every feature reads the same \<^verbatim>\<open>fillColor\<close>,
  \<^verbatim>\<open>fillOpacity\<close>, \<^verbatim>\<open>strokeColor\<close>, \<^verbatim>\<open>strokeWidth\<close> and \<^verbatim>\<open>labelText\<close>, and the same \<^verbatim>\<open>fillRgb\<close>
  wherever it had a truthy \<^verbatim>\<open>fillRgb\<close> or no truthy \<^verbatim>\<open>fillColor\<close>.
\<close>

theorem C4_reimport_reproduces_export:
  assumes "drawRef st = Some draw" and "distinct (map fid (draw_getAll draw))"
    and "mapRef st' = Some m'" and "drawRef st' = Some draw'"
    and "exportGeoJson (Some st) = Some text"
  shows "map_option draw_getAll (drawRef (handleFileUpload text st')) =
           Some (map normalised (getDrawData st))
         \<and> (\<forall>i key. key \<in> set plainStyleKeys \<longrightarrow>
               featureProp (handleFileUpload text st') i key = featureProp st i key)
         \<and> (\<forall>i. truthyOpt (featureProp st i ''fillRgb'') \<or> \<not> truthyOpt (featureProp st i ''fillColor'')
               \<longrightarrow> featureProp (handleFileUpload text st') i ''fillRgb'' = featureProp st i ''fillRgb'')"
proof -
  let ?after = "handleFileUpload text st'"
  from assms(5) have exported: "text = CollectionText (getDrawData st)"
    by (simp add: exportGeoJson_def)
  have dr: "drawRef ?after = Some (draw_set draw' (map normalised (getDrawData st)))"
    using assms(3,4) by (simp add: exported drawRef_handleFileUpload)
  have "stored (draw_set draw' (map normalised (getDrawData st))) =
        map normalised (map normalised (getDrawData st))"
    using distinct_getDrawData [OF assms(1,2)] by (rule stored_draw_set)
  then have st_after: "stored (draw_set draw' (map normalised (getDrawData st))) =
      map normalised (getDrawData st)"
    by (simp add: normalised_idem comp_def)
  have a: "map_option draw_getAll (drawRef ?after) = Some (map normalised (getDrawData st))"
    by (simp add: dr draw_getAll_def st_after)
  have rel: "rel_option exportedFrom (storedFeature st i) (storedFeature ?after i)" for i
    using find_exportedFrom [OF getDrawData_exportedFrom [OF assms(1)], of i] assms(1)
    by (simp add: storedFeature_def dr draw_get_def st_after draw_getAll_def)
  have b: "\<forall>i key. key \<in> set plainStyleKeys \<longrightarrow> featureProp ?after i key = featureProp st i key"
  proof (intro allI impI)
    fix i key
    assume "key \<in> set plainStyleKeys"
    then have "key \<noteq> ''fillRgb''" by (auto simp: plainStyleKeys_def)
    with rel [of i] show "featureProp ?after i key = featureProp st i key"
      by (cases "storedFeature st i"; cases "storedFeature ?after i")
         (simp_all add: featureProp_def exportedFrom_def)
  qed
  have c: "\<forall>i. truthyOpt (featureProp st i ''fillRgb'') \<or> \<not> truthyOpt (featureProp st i ''fillColor'')
               \<longrightarrow> featureProp ?after i ''fillRgb'' = featureProp st i ''fillRgb''"
  proof (intro allI impI)
    fix i
    assume h: "truthyOpt (featureProp st i ''fillRgb'') \<or> \<not> truthyOpt (featureProp st i ''fillColor'')"
    with rel [of i] show "featureProp ?after i ''fillRgb'' = featureProp st i ''fillRgb''"
      by (cases "storedFeature st i"; cases "storedFeature ?after i")
         (simp_all add: featureProp_def exportedFrom_def)
  qed
  from a b c show ?thesis by blast
qed

text \<open>C4, amended, on the component that holds the blue square, exported and imported back.\<close>

theorem C4_reimport_reproduces_export_witness:
  "drawRef blueComponent = Some \<lparr>stored = [blueSquare], selectedIds = []\<rparr>
   \<and> distinct (map fid (draw_getAll \<lparr>stored = [blueSquare], selectedIds = []\<rparr>))
   \<and> mapRef blueComponent = Some emptyMap
   \<and> exportGeoJson (Some blueComponent) = Some (CollectionText (getDrawData blueComponent))
   \<and> map_option draw_getAll
         (drawRef (handleFileUpload (CollectionText (getDrawData blueComponent)) blueComponent)) =
       Some (map normalised (getDrawData blueComponent))
   \<and> featureProp (handleFileUpload (CollectionText (getDrawData blueComponent)) blueComponent)
         ''p1'' ''fillColor'' = featureProp blueComponent ''p1'' ''fillColor''"
proof -
  have a: "drawRef blueComponent = Some \<lparr>stored = [blueSquare], selectedIds = []\<rparr>"
    by (simp add: blueComponent_def)
  have b: "distinct (map fid (draw_getAll \<lparr>stored = [blueSquare], selectedIds = []\<rparr>))"
    by (simp add: draw_getAll_def)
  have c: "mapRef blueComponent = Some emptyMap"
    by (simp add: blueComponent_def)
  have d: "exportGeoJson (Some blueComponent) = Some (CollectionText (getDrawData blueComponent))"
    by (simp add: exportGeoJson_def)
  have k: "''fillColor'' \<in> set plainStyleKeys"
    by (simp add: plainStyleKeys_def)
  from C4_reimport_reproduces_export [OF a b c a d] a b c d k show ?thesis by blast
qed

subsection \<open>C5: vertex deduplication\<close>



subsection \<open>C6: the fill overlay after a synchronization pass\<close>

text \<open>
  C6: after \<^verbatim>\<open>updateCustomColoredLayer\<close> has run on a snapshot, whatever the map held
  before, the source of the fill overlay holds exactly the Polygon and MultiPolygon features
  of the snapshot with a (truthy) \<^verbatim>\<open>fillColor\<close>, in their order; when there is none, the map
  has neither the source nor the layer of the fill overlay.
\<close>

theorem C6_fill_overlay_exact:
  "getSource (updateCustomColoredLayer m fs) ''custom-colored-polygons'' =
     (if coloredFeatures fs = [] then None else Some (Features (coloredFeatures fs)))
   \<and> (getLayer (updateCustomColoredLayer m fs) ''custom-colored-polygons-layer'' \<noteq> None
        \<longleftrightarrow> coloredFeatures fs \<noteq> [])
   \<and> coloredFeatures fs = filter (\<lambda>f. truthyOpt (getProp f ''fillColor'') \<and> isPolygonal f) fs"
proof -
  let ?m1 = "rebuildOverlay ''custom-colored-polygons'' ''custom-colored-polygons-layer'' Fill
               (coloredFeatures fs) m"
  let ?m2 = "rebuildOverlay ''custom-stroked-polygons'' ''custom-stroked-polygons-layer'' Line
               (strokedFeatures fs) ?m1"
  let ?m3 = "upsertCoordinateLabels ?m2 fs"
  let ?m4 = "rebuildOverlay ''custom-text-labels'' ''custom-text-labels-layer'' Symbol
               (textFeatures fs) ?m3"
  have res: "updateCustomColoredLayer m fs =
               (if length (textFeatures fs) > 0 then moveLayer ?m4 ''custom-text-labels-layer'' None
                else ?m4)"
    by (simp add: updateCustomColoredLayer_def Let_def)
  have src: "getSource (updateCustomColoredLayer m fs) ''custom-colored-polygons'' =
               getSource ?m4 ''custom-colored-polygons''"
    by (simp add: res getSource_def sources_moveLayer)
  have "getSource ?m4 ''custom-colored-polygons'' = getSource ?m1 ''custom-colored-polygons''"
    by (simp add: rebuildOverlay_source [of "''custom-text-labels''"]
        rebuildOverlay_source [of "''custom-stroked-polygons''"]
        upsert_sources [OF fill_source_plain])
  with src have a: "getSource (updateCustomColoredLayer m fs) ''custom-colored-polygons'' =
      (if coloredFeatures fs = [] then None else Some (Features (coloredFeatures fs)))"
    by (simp add: rebuildOverlay_source)
  have lay: "lidset (updateCustomColoredLayer m fs) = lidset ?m4"
    by (simp add: res lidset_moveLayer)
  have "''custom-colored-polygons-layer'' \<in> lidset ?m4
          \<longleftrightarrow> ''custom-colored-polygons-layer'' \<in> lidset ?m3"
    by (simp add: rebuildOverlay_layer [of "''custom-text-labels''"])
  also have "\<dots> \<longleftrightarrow> ''custom-colored-polygons-layer'' \<in> lidset ?m2"
    by (rule upsert_lidset [OF fill_layer_plain])
  also have "\<dots> \<longleftrightarrow> ''custom-colored-polygons-layer'' \<in> lidset ?m1"
    by (simp add: rebuildOverlay_layer [of "''custom-stroked-polygons''"])
  also have "\<dots> \<longleftrightarrow> coloredFeatures fs \<noteq> []"
    by (simp add: rebuildOverlay_layer [of "''custom-colored-polygons''"])
  finally have b: "getLayer (updateCustomColoredLayer m fs) ''custom-colored-polygons-layer'' \<noteq> None
        \<longleftrightarrow> coloredFeatures fs \<noteq> []"
    using getLayer_None_iff [of "updateCustomColoredLayer m fs" "''custom-colored-polygons-layer''"]
    by (simp only: lay) blast
  have c: "coloredFeatures fs = filter (\<lambda>f. truthyOpt (getProp f ''fillColor'') \<and> isPolygonal f) fs"
    by (simp add: coloredFeatures_def)
  from a b c show ?thesis by blast
qed

subsection \<open>C7: no selection, no change\<close>

text \<open>
  C7: \<^verbatim>\<open>changeSelectedFill\<close> with no feature selected returns the component as it was: the
  same features, the same map layers and sources, and no call of \<^verbatim>\<open>onDrawChange\<close>.
\<close>

theorem C7_no_selection_no_change:
  "drawRef st = Some draw \<Longrightarrow> draw_getSelectedIds draw = [] \<Longrightarrow>
   changeSelectedFill color opacity st = st"
  by (simp add: changeSelectedFill_def)

text \<open>C7 on the component that holds the unselected square.\<close>

theorem C7_no_selection_no_change_witness:
  "drawRef squareUnselected = Some \<lparr>stored = [plainSquare], selectedIds = []\<rparr>
   \<and> draw_getSelectedIds \<lparr>stored = [plainSquare], selectedIds = []\<rparr> = []
   \<and> changeSelectedFill ''#ff0000'' None squareUnselected = squareUnselected"
  using C7_no_selection_no_change [of squareUnselected "\<lparr>stored = [plainSquare], selectedIds = []\<rparr>"
      "''#ff0000''" None]
  by (simp add: squareUnselected_def draw_getSelectedIds_def)

subsection \<open>C8: applying the same fill twice\<close>

text \<open>
  C8: applying \<^verbatim>\<open>changeSelectedFill\<close> a second time with the same colour and opacity leaves
  every stored feature, and so its properties, as the first application left it.
\<close>

theorem C8_second_application_changes_nothing:
  "storedFeature (changeSelectedFill color opacity (changeSelectedFill color opacity st)) i =
   storedFeature (changeSelectedFill color opacity st) i"
proof (cases "drawRef st")
  case None
  then show ?thesis by (simp add: changeSelectedFill_def)
next
  case (Some d)
  let ?st1 = "changeSelectedFill color opacity st"
  obtain d1 where d1: "drawRef ?st1 = Some d1"
    using Some
    by (cases "draw_getSelectedIds d = []") (simp_all add: changeSelectedFill_def Let_def emitAndSync_def)
  have get1: "draw_get d1 j =
      (if j \<in> set (draw_getSelectedIds d) then map_option (styledFill color opacity) (draw_get d j)
       else draw_get d j)" for j
    using storedFeature_changeSelectedFill [of color opacity st j] Some d1
    by (simp add: storedFeature_def)
  have sub: "set (draw_getSelectedIds d1) \<subseteq> set (draw_getSelectedIds d)"
    using Some d1 by (rule selection_after_changeSelectedFill)
  have idem: "map_option (styledFill color opacity) (map_option (styledFill color opacity) x) =
      map_option (styledFill color opacity) x" for x
    by (cases x) (simp_all add: styledFill_idem)
  have "storedFeature (changeSelectedFill color opacity ?st1) i =
      (if i \<in> set (draw_getSelectedIds d1) then map_option (styledFill color opacity) (draw_get d1 i)
       else draw_get d1 i)"
    using d1 by (simp add: storedFeature_changeSelectedFill)
  also have "\<dots> = draw_get d1 i"
    using sub by (auto simp: get1 idem)
  also have "\<dots> = storedFeature ?st1 i"
    using d1 by (simp add: storedFeature_def)
  finally show ?thesis .
qed

subsection \<open>C9: exported features with a fill colour carry fillRgb\<close>




subsection \<open>C10: loadGeoJson fits the view unless told not to\<close>

text \<open>
  C10, as stated: \<^verbatim>\<open>loadGeoJson\<close> fits the view to the bounds of the loaded collection whenever
  the options are omitted or \<^verbatim>\<open>fitBounds\<close> is \<^verbatim>\<open>undefined\<close>.  It does not when the first feature
  has no position: \<^verbatim>\<open>fitToCollection\<close> returns before \<^verbatim>\<open>map.fitBounds\<close>.  Loaded without
  options, the collection of a feature without geometry followed by the square leaves the
  view as it is, although the collection has positions.
\<close>

theorem C10_no_fit_when_first_feature_has_no_position:
  "map_option fits (mapRef (loadGeoJson noGeometryFirst None blueComponent)) = Some [] \<and>
   collectionPositions noGeometryFirst \<noteq> []"
proof -
  have "mapRef blueComponent = Some emptyMap"
    and "drawRef blueComponent = Some \<lparr>stored = [blueSquare], selectedIds = []\<rparr>"
    by (simp_all add: blueComponent_def)
  from fits_loadGeoJson [OF this, of noGeometryFirst None]
  show ?thesis
    by (simp add: noGeometryFirst_def featurePositions_def collectionPositions_def emptyMap_def
        blueSquare_def plainSquare_def squarePolygon_def)
qed

text \<open>
  C10, amended: once the map and the draw control exist, \<^verbatim>\<open>loadGeoJson\<close> leaves the view as it
  is when \<^verbatim>\<open>options.fitBounds\<close> is \<^verbatim>\<open>false\<close>, when the collection is empty, or when its first
  feature has no position (no geometry, or a geometry without coordinates).  In every other
  case, so with the options omitted, with \<^verbatim>\<open>fitBounds\<close> \<^verbatim>\<open>undefined\<close> and with \<^verbatim>\<open>true\<close>, it
  fits the view once, to the smallest box that holds every position of the collection, and
  nothing after the fit touches the view.
\<close>

theorem C10_fit_unless_false_or_no_first_position:
  assumes "mapRef st = Some m" and "drawRef st = Some draw"
  shows "map_option fits (mapRef (loadGeoJson collection options st)) =
           Some (if options = Some (Some False) \<or> collection = []
                    \<or> featurePositions (hd collection) = []
                 then fits m
                 else fits m @ [spec_bounds (collectionPositions collection)])"
  using assms by (rule fits_loadGeoJson)

text \<open>
  C10 on the component that holds the blue square: without options, and with \<^verbatim>\<open>fitBounds\<close>
  \<^verbatim>\<open>undefined\<close>, the view is fitted to the box of the square; with \<^verbatim>\<open>fitBounds: false\<close> it is
  not.
\<close>

theorem C10_fit_unless_false_or_no_first_position_witness:
  "mapRef blueComponent = Some emptyMap
   \<and> drawRef blueComponent = Some \<lparr>stored = [blueSquare], selectedIds = []\<rparr>
   \<and> map_option fits (mapRef (loadGeoJson [blueSquare] None blueComponent)) = Some [((0, 0), (2, 2))]
   \<and> map_option fits (mapRef (loadGeoJson [blueSquare] (Some None) blueComponent)) =
       Some [((0, 0), (2, 2))]
   \<and> map_option fits (mapRef (loadGeoJson [blueSquare] (Some (Some False)) blueComponent)) = Some []"
proof -
  have a: "mapRef blueComponent = Some emptyMap"
    by (simp add: blueComponent_def)
  have b: "drawRef blueComponent = Some \<lparr>stored = [blueSquare], selectedIds = []\<rparr>"
    by (simp add: blueComponent_def)
  have c: "spec_bounds (collectionPositions [blueSquare]) = ((0, 0), (2, 2))"
    by (simp add: spec_bounds_def collectionPositions_def featurePositions_def blueSquare_def
        plainSquare_def squarePolygon_def)
  have d: "featurePositions (hd [blueSquare]) \<noteq> []"
    by (simp add: featurePositions_def blueSquare_def plainSquare_def squarePolygon_def)
  have e: "fits emptyMap = []"
    by (simp add: emptyMap_def)
  from C10_fit_unless_false_or_no_first_position [OF a b, of "[blueSquare]" None]
       C10_fit_unless_false_or_no_first_position [OF a b, of "[blueSquare]" "Some None"]
       C10_fit_unless_false_or_no_first_position [OF a b, of "[blueSquare]" "Some (Some False)"]
       a b c d e
  show ?thesis by simp
qed

end
